theory Spec2Isabelle
  imports Main
begin

section \<open>Python string operations used by configure.py\<close>

text \<open>
  Strings are lists of characters. The separators and patterns that configure.py passes
  to these operations are ASCII literals, so comparing characters one by one is what
  Python does on them.
\<close>

text \<open>\<^verbatim>\<open>s.startswith(p)\<close>\<close>

fun startswith :: "string \<Rightarrow> string \<Rightarrow> bool" where
  "startswith s [] = True"
| "startswith [] (p # ps) = False"
| "startswith (c # cs) (p # ps) = (c = p \<and> startswith cs ps)"

text \<open>\<^verbatim>\<open>s.endswith(p)\<close>\<close>

definition endswith :: "string \<Rightarrow> string \<Rightarrow> bool" where
  "endswith s p = startswith (rev s) (rev p)"

text \<open>\<^verbatim>\<open>p in s\<close> on strings: \<open>p\<close> occurs in \<open>s\<close> as a contiguous substring.\<close>

fun contains :: "string \<Rightarrow> string \<Rightarrow> bool" where
  "contains [] p = (p = [])"
| "contains (c # cs) p = (if startswith (c # cs) p then True else contains cs p)"

text \<open>
  \<^verbatim>\<open>s.split(sep)\<close> for a separator of one character, the only kind configure.py uses
  (\<^verbatim>\<open>"-"\<close> and \<^verbatim>\<open>" "\<close>): every occurrence of the separator ends a piece, so
  two adjacent separators give an empty piece and the result is never empty.
\<close>

fun str_split :: "string \<Rightarrow> char \<Rightarrow> string list" where
  "str_split [] sep = [[]]"
| "str_split (c # cs) sep =
     (if c = sep then [] # str_split cs sep
      else (case str_split cs sep of [] \<Rightarrow> [[c]] | w # ws \<Rightarrow> (c # w) # ws))"

text \<open>\<^verbatim>\<open>sep.join(xs)\<close>\<close>

fun str_join :: "string \<Rightarrow> string list \<Rightarrow> string" where
  "str_join sep [] = []"
| "str_join sep [x] = x"
| "str_join sep (x # y # ys) = x @ sep @ str_join sep (y # ys)"

text \<open>
  \<^verbatim>\<open>s.replace(old, new)\<close>: the occurrences of \<open>old\<close> are replaced from the left,
  without overlap. With an empty \<open>old\<close> Python puts \<open>new\<close> before every character
  and at the end.
\<close>

function str_replace :: "string \<Rightarrow> string \<Rightarrow> string \<Rightarrow> string" where
  "str_replace [] old new = (if old = [] then new else [])"
| "str_replace (c # cs) old new =
     (if old = [] then new @ c # str_replace cs old new
      else if startswith (c # cs) old
           then new @ str_replace (drop (length old) (c # cs)) old new
           else c # str_replace cs old new)"
  by pat_completeness auto
termination
  by (relation "measure (\<lambda>(s, old, new). length s)") auto

text \<open>\<^verbatim>\<open>s.lstrip(chars)\<close>: drops the leading characters that occur in \<open>chars\<close>.\<close>

definition str_lstrip :: "string \<Rightarrow> string \<Rightarrow> string" where
  "str_lstrip s chars = dropWhile (\<lambda>c. c \<in> set chars) s"

text \<open>Truth value of an \<^verbatim>\<open>Optional[str]\<close>: \<^verbatim>\<open>None\<close> and the empty string are false.\<close>

fun truthy :: "string option \<Rightarrow> bool" where
  "truthy None = False"
| "truthy (Some s) = (s \<noteq> [])"

section \<open>The parsed command line and class Args\<close>

text \<open>
  The \<^verbatim>\<open>argparse.Namespace\<close> that \<^verbatim>\<open>main\<close> receives. Options without a default
  (\<^verbatim>\<open>--host\<close>) or with default \<^verbatim>\<open>None\<close> are optional strings.
\<close>

record namespace =
  ns_no_patches :: bool
  ns_prefix :: string
  ns_host :: "string option"
  ns_target :: string
  ns_cc :: string
  ns_cxx :: string
  ns_cc_build :: string
  ns_cxx_build :: string
  ns_cc_flags :: "string option"
  ns_cxx_flags :: "string option"
  ns_ld_flags :: "string option"
  ns_enable_cache :: bool
  ns_binutils_flags :: "string option"
  ns_gcc_flags :: "string option"
  ns_gcc_with_isl :: bool
  ns_binutils_version :: string
  ns_gcc_version :: string
  ns_gmp_version :: string
  ns_isl_version :: string
  ns_linux_version :: string
  ns_mpc_version :: string
  ns_mpfr_version :: string
  ns_musl_version :: string

text \<open>The fields of an \<^verbatim>\<open>Args\<close> object; \<open>make_tool\<close> is the attribute \<^verbatim>\<open>_make\<close>.\<close>

record args =
  no_patches :: bool
  install_prefix :: string
  host :: "string option"
  target :: string
  cc :: string
  cxx :: string
  cc_build :: string
  cxx_build :: string
  cc_flags :: "string option"
  cxx_flags :: "string option"
  ld_flags :: "string option"
  enable_cache :: bool
  binutils_flags :: "string list"
  gcc_flags :: "string list"
  gcc_with_isl :: bool
  binutils_version :: string
  gcc_version :: string
  gmp_version :: string
  isl_version :: string
  linux_version :: string
  mpc_version :: string
  mpfr_version :: string
  musl_version :: string
  make_tool :: string

text \<open>The list literal that \<^verbatim>\<open>__init__\<close> assigns to \<^verbatim>\<open>self.binutils_flags\<close> first.\<close>

definition binutils_base_flags :: "string list" where
  "binutils_base_flags =
     [''--disable-separate-code'',
      ''--disable-werror'',
      ''--target=$target'',
      ''--prefix='',
      ''--libdir=/lib'',
      ''--disable-multilib'',
      ''--with-sysroot=/$target'',
      ''--enable-deterministic-archives'']"

text \<open>\<^verbatim>\<open>__init__\<close>, lines 65 to 80: the binutils configure flags.\<close>

definition init_binutils_flags :: "namespace \<Rightarrow> string list" where
  "init_binutils_flags ns =
     (let fl = binutils_base_flags;
          fl = (if truthy (ns_host ns) then fl @ [''--host=$host''] else fl);
          fl = (case ns_binutils_flags ns of
                  None \<Rightarrow> fl
                | Some u \<Rightarrow> if u \<noteq> [] then fl @ str_split u CHR '' '' else fl)
      in fl)"

text \<open>The list literal that \<^verbatim>\<open>__init__\<close> assigns to \<^verbatim>\<open>self.gcc_flags\<close> first.\<close>

definition gcc_base_flags :: "string list" where
  "gcc_base_flags =
     [''--enable-languages=c,c++'',
      ''--disable-bootstrap'',
      ''--disable-werror'',
      ''--target=$target'',
      ''--prefix='',
      ''--libdir=/lib'',
      ''--disable-multilib'',
      ''--with-sysroot=/$target'',
      ''--enable-tls'',
      ''--disable-libmudflap'',
      ''--disable-libsanitizer'',
      ''--disable-gnu-indirect-function'',
      ''--disable-libmpx'',
      ''--enable-initfini-array'',
      ''--enable-libstdcxx-time=rt'',
      ''--with-build-sysroot=$build_sysroot_dir'']"

text \<open>
  \<^verbatim>\<open>__init__\<close>, lines 82 to 128: the gcc configure flags. Every \<^verbatim>\<open>append\<close> and the
  final \<^verbatim>\<open>extend\<close> is one rebinding of \<open>fl\<close>, in the order of the source.
\<close>

definition init_gcc_flags :: "namespace \<Rightarrow> string list" where
  "init_gcc_flags ns =
     (let t = ns_target ns;
          fl = gcc_base_flags;
          fl = (if truthy (ns_host ns) then fl @ [''--host=$host''] else fl);
          fl = (if contains t ''fdpic'' then fl @ [''--enable-fdpic''] else fl);
          fl = (if startswith t ''x86_64'' \<and> endswith t ''x32''
                then fl @ [''--with-abi=x32''] else fl);
          fl = (if contains t ''powerpc64'' then fl @ [''--with-abi=elfv2''] else fl);
          fl = (if contains t ''mips64'' \<or> contains t ''mipsisa64''
                then (if contains t ''n32'' then fl @ [''--with-abi=n32'']
                      else fl @ [''--with-abi=64''])
                else fl);
          fl = (if contains t ''s390x'' then fl @ [''--with-long-double-128''] else fl);
          fl = (if endswith t ''sf'' then fl @ [''--with-float=soft'']
                else if endswith t ''hf'' then fl @ [''--with-float=hard'']
                else fl);
          fl = (case ns_gcc_flags ns of
                  None \<Rightarrow> fl
                | Some u \<Rightarrow> if u \<noteq> [] then fl @ str_split u CHR '' '' else fl)
      in fl)"

text \<open>\<^verbatim>\<open>Args.__init__\<close>\<close>

definition init :: "namespace \<Rightarrow> args" where
  "init ns =
     \<lparr> no_patches = ns_no_patches ns,
       install_prefix = ns_prefix ns,
       host = ns_host ns,
       target = ns_target ns,
       cc = ns_cc ns,
       cxx = ns_cxx ns,
       cc_build = ns_cc_build ns,
       cxx_build = ns_cxx_build ns,
       cc_flags = ns_cc_flags ns,
       cxx_flags = ns_cxx_flags ns,
       ld_flags = ns_ld_flags ns,
       enable_cache = ns_enable_cache ns,
       binutils_flags = init_binutils_flags ns,
       gcc_flags = init_gcc_flags ns,
       gcc_with_isl = ns_gcc_with_isl ns,
       binutils_version = ns_binutils_version ns,
       gcc_version = ns_gcc_version ns,
       gmp_version = ns_gmp_version ns,
       isl_version = ns_isl_version ns,
       linux_version = ns_linux_version ns,
       mpc_version = ns_mpc_version ns,
       mpfr_version = ns_mpfr_version ns,
       musl_version = ns_musl_version ns,
       make_tool = ''make'' \<rparr>"

text \<open>\<^verbatim>\<open>Args.is_cross\<close>\<close>

definition is_cross :: "args \<Rightarrow> bool" where
  "is_cross a = (host a = None)"

section \<open>The kernel architecture (Args.ninja, lines 760 to 785)\<close>

text \<open>\<^verbatim>\<open>self.target.split("-")[0]\<close>; the split is never empty, so the index is in range.\<close>

definition first_component :: "string \<Rightarrow> string" where
  "first_component t = (case str_split t CHR ''-'' of [] \<Rightarrow> [] | x # xs \<Rightarrow> x)"

text \<open>
  The \<^verbatim>\<open>if\<close>/\<^verbatim>\<open>elif\<close> chain that rebinds \<^verbatim>\<open>arch\<close>. It has no \<^verbatim>\<open>else\<close>: when no
  branch is taken, \<^verbatim>\<open>arch\<close> keeps the first component of the target. The test for
  \<^verbatim>\<open>s390\<close> is written twice in the source.
\<close>

definition arch :: "string \<Rightarrow> string" where
  "arch t =
     (let arch = first_component t in
      if startswith arch ''aarch64'' then ''arm64''
      else if startswith arch ''arm'' then ''arm''
      else if startswith arch ''i'' \<and> endswith arch ''86'' then ''x86''
      else if startswith arch ''microblaze'' then ''microblaze''
      else if startswith arch ''mips'' then ''mips''
      else if startswith arch ''or1k'' then ''openrisc''
      else if startswith arch ''powerpc'' then ''powerpc''
      else if startswith arch ''riscv'' then ''riscv''
      else if startswith arch ''s390'' then ''s390''
      else if startswith arch ''s390'' then ''s390''
      else if startswith arch ''sh'' then ''sh''
      else if startswith arch ''x86_64'' then ''x86_64''
      else arch)"

section \<open>The machine configure.py runs on\<close>

text \<open>
  What the script reads from its surroundings: \<open>which\<close> is \<^verbatim>\<open>shutil.which\<close>,
  \<open>fs\<close> is the file system seen by \<^verbatim>\<open>Path.exists\<close> and \<^verbatim>\<open>os.listdir\<close>
  (a path is missing, or something that is not a directory, or a directory with its
  entries in listing order), \<open>cpu_count\<close> is the text the f-string prints for
  \<^verbatim>\<open>os.cpu_count()\<close>, \<open>root_dir\<close> is \<^verbatim>\<open>Path(".").absolute()\<close> and
  \<open>platform_system\<close> is \<^verbatim>\<open>platform.system()\<close>.
\<close>

datatype fs_entry = Missing | File | Dir "string list"

record world =
  which :: "string \<Rightarrow> string option"
  fs :: "string \<Rightarrow> fs_entry"
  cpu_count :: string
  root_dir :: string
  platform_system :: string

datatype error = NotADirectoryError | FileNotFoundError | SystemExit nat

section \<open>Tool discovery (Args.try_get_tools)\<close>

text \<open>
  \<^verbatim>\<open>Args._exists\<close>: the answer and the line it prints.
\<close>

definition exists_cmd :: "world \<Rightarrow> string \<Rightarrow> string \<Rightarrow> bool \<times> string" where
  "exists_cmd w cmd msg =
     (case which w cmd of
        Some path \<Rightarrow> (True, msg @ '': '' @ cmd @ '' ('' @ path @ '')'')
      | None \<Rightarrow> (False, msg @ '': '' @ cmd @ '' (doesn't exists)''))"

text \<open>
  The state that \<^verbatim>\<open>try_get_tools\<close> changes: the local \<^verbatim>\<open>failed\<close>, the object
  \<^verbatim>\<open>self\<close>, and the lines printed so far.
\<close>

record run =
  failed :: bool
  self_args :: args
  printed :: "string list"

text \<open>One call of \<^verbatim>\<open>self._exists\<close>, with its line added to the output.\<close>

definition check :: "world \<Rightarrow> string \<Rightarrow> string \<Rightarrow> run \<Rightarrow> bool \<times> run" where
  "check w cmd msg r =
     (let (ok, line) = exists_cmd w cmd msg
      in (ok, r\<lparr>printed := printed r @ [line]\<rparr>))"

text \<open>Lines 172 to 175: the build compilers.\<close>

definition tools_build :: "world \<Rightarrow> run \<Rightarrow> run" where
  "tools_build w r =
     (let (ok, r) = check w (cc_build (self_args r)) ''Checking for build C compiler'' r;
          r = (if \<not> ok then r\<lparr>failed := True\<rparr> else r);
          (ok, r) = check w (cxx_build (self_args r)) ''Checking for build C++ compiler'' r;
          r = (if \<not> ok then r\<lparr>failed := True\<rparr> else r)
      in r)"

text \<open>Lines 177 to 187: the host compilers.\<close>

definition tools_host :: "world \<Rightarrow> run \<Rightarrow> run" where
  "tools_host w r =
     (if truthy (host (self_args r)) then
        (let h = (case host (self_args r) of Some h \<Rightarrow> h | None \<Rightarrow> []);
             r = r\<lparr>self_args := (self_args r)
                   \<lparr>cc := str_lstrip (str_replace (cc (self_args r)) ''$host'' h) ''-''\<rparr>\<rparr>;
             r = r\<lparr>self_args := (self_args r)
                   \<lparr>cxx := str_lstrip (str_replace (cxx (self_args r)) ''$host'' h) ''-''\<rparr>\<rparr>;
             (ok, r) = check w (cc (self_args r)) ''Checking for host C compiler'' r;
             r = (if \<not> ok then r\<lparr>failed := True\<rparr> else r);
             (ok, r) = check w (cxx (self_args r)) ''Checking for host C++ compiler'' r;
             r = (if \<not> ok then r\<lparr>failed := True\<rparr> else r)
         in r)
      else
        (let r = r\<lparr>self_args := (self_args r)\<lparr>cc := cc_build (self_args r)\<rparr>\<rparr>;
             r = r\<lparr>self_args := (self_args r)\<lparr>cxx := cxx_build (self_args r)\<rparr>\<rparr>
         in r))"

text \<open>
  Lines 189 to 207: the compiler wrapper. \<open>wrapper\<close> is \<^verbatim>\<open>None\<close> until a tool is
  found; both names it can take are non-empty, so \<^verbatim>\<open>if wrapper\<close> asks whether it is set.
\<close>

definition tools_cache :: "world \<Rightarrow> run \<Rightarrow> run" where
  "tools_cache w r =
     (if enable_cache (self_args r) then
        (let (ccache, r) = check w ''ccache'' ''Checking for tool ccache'' r;
             wrapper = None;
             (wrapper, r) =
               (if ccache then (Some ''ccache'', r)
                else (let (sccache, r) = check w ''sccache'' ''Checking for tool sccache'' r
                      in (if sccache then Some ''sccache'' else wrapper, r)))
         in (case wrapper of
               None \<Rightarrow> r
             | Some wr \<Rightarrow>
                 (let r = r\<lparr>printed := printed r @ [''Using '' @ wr @ '' as compiler wrapper'']\<rparr>;
                      r = r\<lparr>self_args := (self_args r)\<lparr>cc := wr @ '' '' @ cc (self_args r)\<rparr>\<rparr>;
                      r = r\<lparr>self_args := (self_args r)\<lparr>cxx := wr @ '' '' @ cxx (self_args r)\<rparr>\<rparr>;
                      r = r\<lparr>self_args := (self_args r)
                            \<lparr>cc_build := wr @ '' '' @ cc_build (self_args r)\<rparr>\<rparr>;
                      r = r\<lparr>self_args := (self_args r)
                            \<lparr>cxx_build := wr @ '' '' @ cxx_build (self_args r)\<rparr>\<rparr>
                  in r)))
      else r)"

text \<open>Lines 209 to 216: the make tool.\<close>

definition tools_make :: "world \<Rightarrow> run \<Rightarrow> run" where
  "tools_make w r =
     (let (ok, r) = check w ''make'' ''Checking for tool make'' r in
      if ok then r\<lparr>self_args := (self_args r)\<lparr>make_tool := ''make''\<rparr>\<rparr>
      else
        (let (ok, r) = check w ''gmake'' ''Checking for tool gmake'' r in
         if ok then r\<lparr>self_args := (self_args r)\<lparr>make_tool := ''gmake''\<rparr>\<rparr>
         else
           (let (ok, r) = check w ''mingw32-make'' ''Checking for tool mingw32-make'' r in
            if ok then r\<lparr>self_args := (self_args r)\<lparr>make_tool := ''mingw32-make''\<rparr>\<rparr>
            else r\<lparr>failed := True\<rparr>)))"

text \<open>Lines 218 to 225: curl, patch and tar.\<close>

definition tools_rest :: "world \<Rightarrow> run \<Rightarrow> run" where
  "tools_rest w r =
     (let (ok, r) = check w ''curl'' ''Checking for tool curl'' r;
          r = (if \<not> ok then r\<lparr>failed := True\<rparr> else r);
          (ok, r) = check w ''patch'' ''Checking for tool patch'' r;
          r = (if \<not> ok then r\<lparr>failed := True\<rparr> else r);
          (ok, r) = check w ''tar'' ''Checking for tool tar'' r;
          r = (if \<not> ok then r\<lparr>failed := True\<rparr> else r)
      in r)"

text \<open>
  \<^verbatim>\<open>Args.try_get_tools\<close>: the five blocks in the order of the source. The result holds
  the returned \<^verbatim>\<open>failed\<close>, the object as the method leaves it and what was printed.
\<close>

definition try_get_tools :: "args \<Rightarrow> world \<Rightarrow> run" where
  "try_get_tools a w =
     (let r = \<lparr>failed = False, self_args = a, printed = []\<rparr>;
          r = tools_build w r;
          r = tools_host w r;
          r = tools_cache w r;
          r = tools_make w r;
          r = tools_rest w r
      in r)"

section \<open>The patch catalogue (class Patch)\<close>

definition MUSL_CROSS_MAKE_COMMIT :: string where
  "MUSL_CROSS_MAKE_COMMIT = ''fe915821b652a7fa37b34a596f47d8e20bc72338''"

record patch =
  patch_name :: string
  patch_version :: string
  patch_path :: string

text \<open>\<^verbatim>\<open>Patch.__init__\<close>\<close>

definition Patch :: "string \<Rightarrow> string \<Rightarrow> patch" where
  "Patch name version =
     \<lparr> patch_name = name,
       patch_version = version,
       patch_path = ''patches/musl-cross-make-'' @ MUSL_CROSS_MAKE_COMMIT
                    @ ''/patches/'' @ name @ ''-'' @ version \<rparr>"

text \<open>\<^verbatim>\<open>Patch.exists\<close>\<close>

definition patch_exists :: "patch \<Rightarrow> world \<Rightarrow> bool" where
  "patch_exists p w = (fs w (patch_path p) \<noteq> Missing)"

text \<open>
  \<^verbatim>\<open>Patch.files\<close>: \<^verbatim>\<open>os.listdir\<close> raises when the path is missing or is not a
  directory; otherwise every entry, in listing order, behind the path and a slash.
\<close>

definition patch_files :: "patch \<Rightarrow> world \<Rightarrow> error + string list" where
  "patch_files p w =
     (case fs w (patch_path p) of
        Missing \<Rightarrow> Inl FileNotFoundError
      | File \<Rightarrow> Inl NotADirectoryError
      | Dir entries \<Rightarrow> Inr (map (\<lambda>i. patch_path p @ ''/'' @ i) entries))"

section \<open>The build file (Args.ninja)\<close>

text \<open>
  \<^verbatim>\<open>Args.ninja\<close> drives a \<^verbatim>\<open>ninja_syntax.Writer\<close>. The model records the calls made
  on the writer, in order, with their arguments: a \<^verbatim>\<open>build\<close> call keeps its output,
  rule, \<^verbatim>\<open>inputs\<close>, \<^verbatim>\<open>implicit\<close>, \<^verbatim>\<open>pool\<close> and \<^verbatim>\<open>variables\<close> (absent
  arguments are the empty list or \<^verbatim>\<open>None\<close>).
\<close>

record build =
  out :: string
  rule :: string
  inputs :: "string list"
  implicit :: "string list"
  pool :: "string option"
  variables :: "(string \<times> string) list"

datatype stmt =
    Variable string "string option"
  | Newline
  | Comment string
  | Rule string string string
  | Build build
  | Default "string list"

definition writer_build ::
  "string \<Rightarrow> string \<Rightarrow> string list \<Rightarrow> string list \<Rightarrow> string option
     \<Rightarrow> (string \<times> string) list \<Rightarrow> stmt" where
  "writer_build ou ru ins imp po vars =
     Build \<lparr>out = ou, rule = ru, inputs = ins, implicit = imp, pool = po, variables = vars\<rparr>"

text \<open>The string \<^verbatim>\<open>env_vars\<close> of lines 278 to 281.\<close>

definition env_vars :: "args \<Rightarrow> string" where
  \<open>env_vars a =
     (let env_vars = ''CC="$cc" CXX="$cxx" CFLAGS="$cc_flags" CXXFLAGS="$cxx_flags" LDFLAGS="$ld_flags"'';
          env_vars = (if \<not> is_cross a
                      then env_vars @ '' CC_FOR_BUILD="$cc_build" CXX_FOR_BUILD="$cxx_build"''
                      else env_vars)
      in env_vars)\<close>

text \<open>Lines 234 to 294: the variables at the head of the file.\<close>

definition ninja_variables :: "args \<Rightarrow> world \<Rightarrow> stmt list" where
  "ninja_variables a w =
     [Variable ''target'' (Some (target a)),
      Variable ''host'' (host a),
      Newline,
      Variable ''cc'' (Some (cc a)),
      Variable ''cxx'' (Some (cxx a))]
     @ (if \<not> is_cross a
        then [Variable ''cc_build'' (Some (cc_build a)),
              Variable ''cxx_build'' (Some (cxx_build a))]
        else [])
     @ [Variable ''cc_flags'' (cc_flags a),
        Variable ''cxx_flags'' (cxx_flags a),
        Variable ''ld_flags'' (ld_flags a),
        Newline,
        Variable ''binutils_version'' (Some (binutils_version a)),
        Variable ''gcc_version'' (Some (gcc_version a)),
        Variable ''gmp_version'' (Some (gmp_version a))]
     @ (if gcc_with_isl a then [Variable ''isl_version'' (Some (isl_version a))] else [])
     @ [Variable ''linux_version'' (Some (linux_version a)),
        Variable ''mpc_version'' (Some (mpc_version a)),
        Variable ''mpfr_version'' (Some (mpfr_version a)),
        Variable ''musl_version'' (Some (musl_version a)),
        Newline,
        Variable ''gnu_site'' (Some ''https://ftpmirror.gnu.org'')]
     @ (if gcc_with_isl a
        then [Variable ''isl_site'' (Some ''https://libisl.sourceforge.io'')] else [])
     @ [Variable ''linux_site'' (Some ''https://cdn.kernel.org/pub/linux/kernel/v6.x''),
        Variable ''musl_site'' (Some ''https://www.musl-libc.org''),
        Newline,
        Variable ''download_command'' (Some ''curl -L -o''),
        Variable ''make_command''
          (Some (make_tool a @ '' -j '' @ cpu_count w
                 @ '' MULTILIB_OSDIRNAMES= INFO_DEPS= infodir= ac_cv_prog_lex_root=lex.yy'')),
        Newline,
        Comment ''edit below this line carefully'',
        Newline,
        Variable ''env_vars'' (Some (env_vars a)),
        Newline,
        Variable ''root_dir'' (Some (root_dir w)),
        Variable ''build_dir'' (Some ''build''),
        Variable ''build_sysroot_dir'' (Some ''$root_dir/$build_dir/sysroot''),
        Variable ''build_targets_dir'' (Some ''$build_dir/targets''),
        Variable ''download_dir'' (Some ''downloads''),
        Variable ''install_dir'' (Some (install_prefix a)),
        Newline,
        Comment ''step 1 - download, extract and patch archives'',
        Newline]"

text \<open>Lines 296 to 301.\<close>

definition download_targets :: "args \<Rightarrow> string list" where
  "download_targets a =
     (let dt = [''binutils'', ''gcc'', ''gmp''];
          dt = (if gcc_with_isl a then dt @ [''isl''] else dt);
          dt = dt @ [''linux'', ''mpc'', ''mpfr'', ''musl'']
      in dt)"

text \<open>Lines 303 to 312: the body of the first loop over \<^verbatim>\<open>download_targets\<close>.\<close>

definition tarball_variable :: "string \<Rightarrow> stmt" where
  "tarball_variable name =
     (let compression = ''xz'';
          compression = (if name \<in> set [''mpc'', ''musl''] then ''gz'' else compression)
      in Variable (name @ ''_tarball'')
           (Some (''$download_dir/'' @ name @ ''-$'' @ name @ ''_version.tar.'' @ compression)))"

text \<open>Lines 316 to 318: the body of the second loop.\<close>

definition dir_variable :: "string \<Rightarrow> stmt" where
  "dir_variable name =
     Variable (name @ ''_dir'') (Some (''$build_dir/'' @ name @ ''-$'' @ name @ ''_version''))"

text \<open>Lines 303 to 396: tarball and directory variables, two rules, the download nodes.\<close>

definition ninja_downloads :: "args \<Rightarrow> stmt list" where
  "ninja_downloads a =
     map tarball_variable (download_targets a)
     @ [Newline]
     @ map dir_variable (download_targets a)
     @ [Newline,
        Rule ''download-tarball'' ''$download_command $out $url'' ''Downloading $url'',
        Newline,
        Rule ''extract-tar''
          ''rm -rf $extracted_dir && tar -C $build_dir -x -$compression -f $in && cd $extracted_dir && $patch_command && touch ../../$out''
          ''Extracting $in'',
        Newline,
        writer_build ''$binutils_tarball'' ''download-tarball'' [] [] (Some ''console'')
          [(''url'', ''$gnu_site/binutils/binutils-$binutils_version.tar.xz'')],
        Newline,
        writer_build ''$gcc_tarball'' ''download-tarball'' [] [] (Some ''console'')
          [(''url'', ''$gnu_site/gcc/gcc-$gcc_version/gcc-$gcc_version.tar.xz'')],
        Newline,
        writer_build ''$gmp_tarball'' ''download-tarball'' [] [] (Some ''console'')
          [(''url'', ''$gnu_site/gmp/gmp-$gmp_version.tar.xz'')]]
     @ (if gcc_with_isl a
        then [Newline,
              writer_build ''$isl_tarball'' ''download-tarball'' [] [] (Some ''console'')
                [(''url'', ''$isl_site/isl-$isl_version.tar.xz'')]]
        else [])
     @ [Newline,
        writer_build ''$linux_tarball'' ''download-tarball'' [] [] (Some ''console'')
          [(''url'', ''$linux_site/linux-$linux_version.tar.xz'')],
        Newline,
        writer_build ''$mpc_tarball'' ''download-tarball'' [] [] (Some ''console'')
          [(''url'', ''$gnu_site/mpc/mpc-$mpc_version.tar.gz'')],
        Newline,
        writer_build ''$mpfr_tarball'' ''download-tarball'' [] [] (Some ''console'')
          [(''url'', ''$gnu_site/mpfr/mpfr-$mpfr_version.tar.xz'')],
        Newline,
        writer_build ''$musl_tarball'' ''download-tarball'' [] [] (Some ''console'')
          [(''url'', ''$musl_site/releases/musl-$musl_version.tar.gz'')],
        Newline]"

text \<open>Lines 398 to 412.\<close>

definition name_version_tuples :: "args \<Rightarrow> (string \<times> string) list" where
  "name_version_tuples a =
     (let nv = [(''binutils'', binutils_version a),
                (''gcc'', gcc_version a),
                (''gmp'', gmp_version a)];
          nv = (if gcc_with_isl a then nv @ [(''isl'', isl_version a)] else nv);
          nv = nv @ [(''linux'', linux_version a),
                     (''mpc'', mpc_version a),
                     (''mpfr'', mpfr_version a),
                     (''musl'', musl_version a)]
      in nv)"

text \<open>
  Lines 416 and 421 to 431: the patch command of one component. The inner loop adds one
  \<^verbatim>\<open>-i\<close> option per patch file; a command left without any becomes \<^verbatim>\<open>true\<close>.
\<close>

definition patch_command :: "args \<Rightarrow> world \<Rightarrow> string \<Rightarrow> string \<Rightarrow> error + string" where
  "patch_command a w name version =
     (let patch_command = ''true'' in
      if \<not> no_patches a then
        (let patch = Patch name version in
         if patch_exists patch w then
           (case patch_files patch w of
              Inl e \<Rightarrow> Inl e
            | Inr files \<Rightarrow>
                (let patch_command =
                       foldl (\<lambda>pc patch_file. pc @ '' -i ../../'' @ patch_file)
                         ''patch -p 1'' files;
                     patch_command = (if patch_command = ''patch -p 1'' then ''true''
                                      else patch_command)
                 in Inr patch_command))
         else Inr patch_command)
      else Inr patch_command)"

text \<open>Lines 415 to 420 and 433 to 442: the extract node of one component.\<close>

definition extract_build :: "string \<Rightarrow> string \<Rightarrow> stmt" where
  "extract_build name pc =
     (let compression = ''J'';
          compression = (if name \<in> set [''mpc'', ''musl''] then ''x'' else compression)
      in writer_build (''$build_targets_dir/extract-'' @ name) ''extract-tar''
           [''$'' @ name @ ''_tarball''] [] None
           [(''compression'', compression),
            (''extracted_dir'', ''$'' @ name @ ''_dir''),
            (''patch_command'', pc)])"

text \<open>Lines 414 to 443: the loop; it stops at the first exception.\<close>

fun ninja_extracts :: "args \<Rightarrow> world \<Rightarrow> (string \<times> string) list \<Rightarrow> error + stmt list" where
  "ninja_extracts a w [] = Inr []"
| "ninja_extracts a w ((name, version) # rest) =
     (case patch_command a w name version of
        Inl e \<Rightarrow> Inl e
      | Inr pc \<Rightarrow>
          (case ninja_extracts a w rest of
             Inl e \<Rightarrow> Inl e
           | Inr ss \<Rightarrow> Inr (extract_build name pc # Newline # ss)))"

text \<open>Lines 445 to 494: binutils, and the rule that moves a directory.\<close>

definition ninja_binutils :: "args \<Rightarrow> stmt list" where
  "ninja_binutils a =
     [Comment ''step 2 - build binutils'',
      Newline,
      Variable ''binutils_dir'' (Some ''$build_dir/binutils-build''),
      Newline,
      Rule ''configure-binutils''
        (''rm -rf $binutils_dir && mkdir $binutils_dir && cd $binutils_dir && $env_vars ../binutils-$binutils_version/configure ''
         @ str_join '' '' (binutils_flags a) @ '' && touch ../../$out'')
        ''Configuring binutils $binutils_version'',
      Newline,
      Rule ''build-binutils''
        ''cd $binutils_dir && $env_vars $make_command all && touch ../../$out''
        ''Building binutils $binutils_version'',
      Newline,
      Rule ''install-binutils''
        ''cd $binutils_dir && $env_vars $make_command install DESTDIR=$install_dir && touch ../../$out''
        ''Installing binutils $binutils_version'',
      Newline,
      writer_build ''$build_targets_dir/configure-binutils'' ''configure-binutils'' []
        [''$build_targets_dir/extract-binutils''] (Some ''console'') [],
      Newline,
      writer_build ''$build_targets_dir/build-binutils'' ''build-binutils'' []
        [''$build_targets_dir/configure-binutils''] (Some ''console'') [],
      Newline,
      writer_build ''$build_targets_dir/install-binutils'' ''install-binutils'' []
        [''$build_targets_dir/build-binutils''] (Some ''console'') [],
      Newline,
      Comment ''step 3 - configure gcc'',
      Newline,
      Rule ''move-directory'' ''rm -rf $dst_dir && mv $src_dir $dst_dir && touch $out''
        ''Moving $src_dir -> $dst_dir'']"

text \<open>Lines 496 to 501.\<close>

definition move_targets :: "args \<Rightarrow> string list" where
  "move_targets a =
     (let mt = [''gmp''];
          mt = (if gcc_with_isl a then mt @ [''isl''] else mt);
          mt = mt @ [''mpc'', ''mpfr'']
      in mt)"

text \<open>Lines 505 to 514: the node written by one round of the loop over \<^verbatim>\<open>move_targets\<close>.\<close>

definition move_build :: "string \<Rightarrow> stmt" where
  "move_build name =
     writer_build (''$build_targets_dir/move-'' @ name) ''move-directory'' []
       [''$build_targets_dir/extract-'' @ name] None
       [(''src_dir'', ''$'' @ name @ ''_dir''), (''dst_dir'', ''$gcc_dir/'' @ name)]"

text \<open>Line 515: the list \<^verbatim>\<open>build_targets_move\<close> after the loop.\<close>

definition build_targets_move :: "args \<Rightarrow> string list" where
  "build_targets_move a = map (\<lambda>name. ''$build_targets_dir/move-'' @ name) (move_targets a)"

text \<open>Lines 521 to 536.\<close>

definition gcc_vars :: "args \<Rightarrow> string list" where
  \<open>gcc_vars a =
     (if is_cross a then
        [''AR_FOR_TARGET="$root_dir/$binutils_dir/binutils/ar"'',
         ''AS_FOR_TARGET="$root_dir/$binutils_dir/gas/as-new"'',
         ''LD_FOR_TARGET="$root_dir/$binutils_dir/ld/ld-new"'',
         ''NM_FOR_TARGET="$root_dir/$binutils_dir/binutils/nm-new"'',
         ''OBJCOPY_FOR_TARGET="$root_dir/$binutils_dir/binutils/objcopy"'',
         ''OBJDUMP_FOR_TARGET="$root_dir/$binutils_dir/binutils/objdump"'',
         ''RANLIB_FOR_TARGET="$root_dir/$binutils_dir/binutils/ranlib"'',
         ''READELF_FOR_TARGET="$root_dir/$binutils_dir/binutils/readelf"'',
         ''STRIP_FOR_TARGET="$root_dir/$binutils_dir/binutils/strip-new"'']
      else [])\<close>

text \<open>Lines 545 to 547: the implicit dependencies of the node that configures gcc.\<close>

definition configure_gcc_implicit :: "args \<Rightarrow> string list" where
  "configure_gcc_implicit a =
     (let implicit = [''$build_targets_dir/extract-gcc''];
          implicit = implicit @ build_targets_move a;
          implicit = implicit @ [''$build_targets_dir/build-binutils'']
      in implicit)"

text \<open>Lines 504 to 573: the move nodes, then configuring gcc and building its first stage.\<close>

definition ninja_gcc_configure :: "args \<Rightarrow> stmt list" where
  "ninja_gcc_configure a =
     concat (map (\<lambda>name. [Newline, move_build name]) (move_targets a))
     @ [Newline,
        Variable ''gcc_dir'' (Some ''$build_dir/gcc-build''),
        Newline,
        Rule ''configure-gcc''
          (''rm -rf $build_sysroot_dir && mkdir -p $build_sysroot_dir/usr/include && rm -rf $gcc_dir && mkdir $gcc_dir && cd $gcc_dir && $env_vars ../gcc-$gcc_version/configure ''
           @ str_join '' '' (gcc_flags a) @ '' '' @ str_join '' '' (gcc_vars a)
           @ '' && touch ../../$out'')
          ''Configuring gcc $gcc_version'',
        Newline,
        writer_build ''$build_targets_dir/configure-gcc'' ''configure-gcc'' []
          (configure_gcc_implicit a) (Some ''console'') [],
        Newline,
        Comment ''step 4 - build gcc (all-gcc)'',
        Newline,
        Rule ''build-gcc-all-gcc''
          ''cd $gcc_dir && $env_vars $make_command all-gcc && touch ../../$out''
          ''Building gcc $gcc_version (all-gcc)'',
        Newline,
        writer_build ''$build_targets_dir/build-gcc-all-gcc'' ''build-gcc-all-gcc'' []
          [''$build_targets_dir/configure-gcc''] (Some ''console'') [],
        Newline,
        Comment ''step 5 - configure musl'',
        Newline,
        Variable ''musl_dir'' (Some ''$build_dir/musl-build'')]"

text \<open>Line 585.\<close>

definition host_exe_suffix :: "world \<Rightarrow> string" where
  "host_exe_suffix w = (if platform_system w = ''Windows'' then ''.exe'' else [])"

text \<open>Lines 575 to 577, 584 to 588 and 595 to 601.\<close>

definition musl_configure_env_vars :: "args \<Rightarrow> world \<Rightarrow> string list" where
  \<open>musl_configure_env_vars a w =
     (let vars = [''LIBCC="$root_dir/$gcc_dir/$target/libgcc/libgcc.a"''] in
      if is_cross a then
        vars @ [''CC="$root_dir/$gcc_dir/gcc/xgcc'' @ host_exe_suffix w
                @ '' -B $root_dir/$gcc_dir/gcc"'']
      else
        vars @ [''CC=${target}-gcc'', ''CROSS_COMPILE=${target}-''])\<close>

text \<open>Lines 578 to 581.\<close>

definition musl_flags :: "string list" where
  "musl_flags = [''--prefix='', ''--host=$target'']"

text \<open>Lines 582, 589 to 594 and 602 to 607.\<close>

definition musl_vars :: "args \<Rightarrow> string list" where
  \<open>musl_vars a =
     (if is_cross a then
        [''AR="$root_dir/$binutils_dir/binutils/ar"'',
         ''RANLIB="$root_dir/$binutils_dir/binutils/ranlib"'']
      else
        [''AR=${target}-ar'', ''RANLIB=${target}-ranlib''])\<close>

text \<open>The command of the rule \<^verbatim>\<open>configure-musl\<close>, line 613.\<close>

definition configure_musl_command :: "args \<Rightarrow> world \<Rightarrow> string" where
  "configure_musl_command a w =
     ''rm -rf $musl_dir && mkdir $musl_dir && cd $musl_dir && $env_vars ''
     @ str_join '' '' (musl_configure_env_vars a w)
     @ '' ../musl-$musl_version/configure '' @ str_join '' '' musl_flags
     @ '' && touch ../../$out''"

text \<open>Lines 610 to 697: musl and the static libgcc.\<close>

definition ninja_musl :: "args \<Rightarrow> world \<Rightarrow> stmt list" where
  "ninja_musl a w =
     [Newline,
      Rule ''configure-musl'' (configure_musl_command a w) ''Configuring musl $musl_version'',
      Newline,
      writer_build ''$build_targets_dir/configure-musl'' ''configure-musl'' []
        [''$build_targets_dir/extract-musl'', ''$build_targets_dir/build-gcc-all-gcc'']
        (Some ''console'') [],
      Newline,
      Comment ''step 6 - install musl (headers)'',
      Newline,
      Rule ''install-musl-headers-dep''
        ''cd $musl_dir && $env_vars $make_command install-headers prefix=/usr DESTDIR=$build_sysroot_dir && touch ../../$out''
        ''Configuring musl $musl_version'',
      Newline,
      writer_build ''$build_targets_dir/install-musl-headers-dep'' ''install-musl-headers-dep'' []
        [''$build_targets_dir/configure-musl''] (Some ''console'') [],
      Newline,
      Comment ''step 7 - build gcc (libgcc.a)'',
      Newline,
      Rule ''build-gcc-libgcc-static''
        ''cd $gcc_dir && $env_vars $make_command enable_shared=no all-target-libgcc && touch ../../$out''
        ''Building gcc $gcc_version (libgcc.a)'',
      Newline,
      writer_build ''$build_targets_dir/build-gcc-libgcc-static'' ''build-gcc-libgcc-static'' []
        [''$build_targets_dir/install-musl-headers-dep''] (Some ''console'') [],
      Newline,
      Comment ''step 8 - build musl'',
      Newline,
      Rule ''build-musl''
        (''cd $musl_dir && $env_vars $make_command '' @ str_join '' '' (musl_vars a)
         @ '' && touch ../../$out'')
        ''Building musl $musl_version'',
      Newline,
      Rule ''install-musl-dep''
        ''cd $musl_dir && $env_vars $make_command install prefix=/usr DESTDIR=$build_sysroot_dir && touch ../../$out''
        ''Installing musl $musl_version at $build_sysroot_dir'',
      Newline,
      Rule ''install-musl''
        ''cd $musl_dir && $env_vars $make_command install DESTDIR=$install_dir/$target && touch ../../$out''
        ''Installing musl $musl_version'',
      Newline,
      writer_build ''$build_targets_dir/build-musl'' ''build-musl'' []
        [''$build_targets_dir/build-gcc-libgcc-static''] (Some ''console'') [],
      Newline,
      writer_build ''$build_targets_dir/install-musl-dep'' ''install-musl-dep'' []
        [''$build_targets_dir/build-musl''] (Some ''console'') [],
      Newline,
      writer_build ''$build_targets_dir/install-musl'' ''install-musl'' []
        [''$build_targets_dir/build-musl''] (Some ''console'') [],
      Newline]"

text \<open>Lines 698 to 754: the shared libgcc and the full compiler.\<close>

definition ninja_gcc_final :: "stmt list" where
  "ninja_gcc_final =
     [Comment ''step 9 - build gcc (libgcc.so)'',
      Newline,
      Rule ''clean-gcc-libgcc-static''
        ''cd $gcc_dir && $env_vars $make_command -C $target/libgcc distclean && touch ../../$out''
        ''Cleaning gcc $gcc_version (libgcc.a)'',
      Newline,
      Rule ''build-gcc-libgcc-shared''
        ''cd $gcc_dir && $env_vars $make_command enable_shared=yes all-target-libgcc && touch ../../$out''
        ''Building gcc $gcc_version (libgcc.so)'',
      Newline,
      writer_build ''$build_targets_dir/clean-gcc-libgcc-static'' ''clean-gcc-libgcc-static'' []
        [''$build_targets_dir/install-musl-dep''] (Some ''console'') [],
      Newline,
      writer_build ''$build_targets_dir/build-gcc-libgcc-shared'' ''build-gcc-libgcc-shared'' []
        [''$build_targets_dir/clean-gcc-libgcc-static''] (Some ''console'') [],
      Newline,
      Comment ''step 10 - build gcc'',
      Newline,
      Rule ''build-gcc'' ''cd $gcc_dir && $env_vars $make_command && touch ../../$out''
        ''Building gcc $gcc_version'',
      Newline,
      Rule ''install-gcc''
        ''cd $gcc_dir && $env_vars $make_command install DESTDIR=$install_dir && touch ../../$out''
        ''Installing gcc $gcc_version'',
      Newline,
      writer_build ''$build_targets_dir/build-gcc'' ''build-gcc'' []
        [''$build_targets_dir/build-gcc-libgcc-shared''] (Some ''console'') [],
      Newline,
      writer_build ''$build_targets_dir/install-gcc'' ''install-gcc'' []
        [''$build_targets_dir/build-gcc''] (Some ''console'') [],
      Newline]"

text \<open>Lines 755 to 814: the kernel headers.\<close>

definition ninja_linux :: "args \<Rightarrow> stmt list" where
  "ninja_linux a =
     [Comment ''step 11 - install linux (headers)'',
      Newline,
      Variable ''arch'' (Some (arch (target a))),
      Newline,
      Rule ''build-linux''
        ''cd $linux_dir && $env_vars $make_command mrproper ARCH=$arch && touch ../../$out''
        ''Building linux $linux_version'',
      Newline,
      Rule ''install-linux''
        ''rm -rf $build_dir/linux-build && mkdir $build_dir/linux-build && cd $linux_dir && $env_vars $make_command headers_install O=$root_dir/$build_dir/linux-build ARCH=$arch INSTALL_HDR_PATH=$install_dir/$target && touch ../../$out''
        ''Installing linux $linux_version'',
      Newline,
      writer_build ''$build_targets_dir/build-linux'' ''build-linux'' []
        [''$build_targets_dir/extract-linux''] (Some ''console'') [],
      Newline,
      writer_build ''$build_targets_dir/install-linux'' ''install-linux'' []
        [''$build_targets_dir/build-linux''] (Some ''console'') [],
      Newline]"

text \<open>Lines 815 to 862: the clean, install and default targets.\<close>

definition ninja_targets :: "stmt list" where
  "ninja_targets =
     [Comment ''clean targets'',
      Newline,
      Rule ''delete-directory'' ''rm -rf $in'' ''Deleting $in'',
      Newline,
      Rule ''clean-all'' ''true'' ''Cleaned everything'',
      Newline,
      writer_build ''clean-build'' ''delete-directory'' [''$build_dir''] [] None [],
      writer_build ''clean-downloads'' ''delete-directory'' [''$download_dir''] [] None [],
      writer_build ''clean'' ''clean-all'' [] [''clean-build'', ''clean-downloads''] None [],
      Newline,
      Comment ''install targets'',
      Newline,
      Rule ''install-all'' ''true'' ''Installed toolchain at $install_dir'',
      Newline,
      writer_build ''install'' ''install-all'' []
        [''$build_targets_dir/install-binutils'',
         ''$build_targets_dir/install-gcc'',
         ''$build_targets_dir/install-musl'',
         ''$build_targets_dir/install-linux'']
        None [],
      Newline,
      Comment ''default targets'',
      Newline,
      Default [''$build_targets_dir/build-gcc'', ''$build_targets_dir/build-linux'']]"

text \<open>
  \<^verbatim>\<open>Args.ninja\<close>: everything written to the build file, or the exception that the
  loop over the patch directories raised.
\<close>

definition ninja :: "args \<Rightarrow> world \<Rightarrow> error + stmt list" where
  "ninja a w =
     (case ninja_extracts a w (name_version_tuples a) of
        Inl e \<Rightarrow> Inl e
      | Inr extracts \<Rightarrow>
          Inr (ninja_variables a w
               @ ninja_downloads a
               @ extracts
               @ ninja_binutils a
               @ ninja_gcc_configure a
               @ ninja_musl a w
               @ ninja_gcc_final
               @ ninja_linux a
               @ ninja_targets))"

text \<open>
  \<^verbatim>\<open>main\<close>, from the construction of \<^verbatim>\<open>Args\<close> on: the run ends with exit status 1
  when a tool is missing, and writes the build file otherwise. The download of the patch
  bundle before it is not modelled; \<open>fs\<close> is the file system after it.
\<close>

definition main :: "namespace \<Rightarrow> world \<Rightarrow> error + stmt list" where
  "main ns w =
     (let a = init ns;
          r = try_get_tools a w
      in if failed r then Inl (SystemExit 1) else ninja (self_args r) w)"

section \<open>Reading the action graph off the build file\<close>

text \<open>The nodes: the \<^verbatim>\<open>build\<close> statements, in the order written.\<close>

fun builds_of :: "stmt list \<Rightarrow> build list" where
  "builds_of [] = []"
| "builds_of (Build b # ss) = b # builds_of ss"
| "builds_of (s # ss) = builds_of ss"

text \<open>The default subset: the targets of the \<^verbatim>\<open>default\<close> statements.\<close>

fun defaults_of :: "stmt list \<Rightarrow> string list" where
  "defaults_of [] = []"
| "defaults_of (Default ts # ss) = ts @ defaults_of ss"
| "defaults_of (s # ss) = defaults_of ss"

text \<open>The command of the first rule of a given name.\<close>

fun rule_command :: "stmt list \<Rightarrow> string \<Rightarrow> string option" where
  "rule_command [] n = None"
| "rule_command (Rule m c d # ss) n = (if m = n then Some c else rule_command ss n)"
| "rule_command (s # ss) n = rule_command ss n"

text \<open>The predecessors of a node: its explicit and implicit inputs.\<close>

definition deps :: "build \<Rightarrow> string list" where
  "deps b = inputs b @ implicit b"

text \<open>The predecessors of the node with a given output, if the graph has such a node.\<close>

fun deps_of :: "build list \<Rightarrow> string \<Rightarrow> string list option" where
  "deps_of [] n = None"
| "deps_of (b # bs) n = (if out b = n then Some (deps b) else deps_of bs n)"

text \<open>The edges of the graph, from a predecessor to the node that depends on it.\<close>

definition edge_list :: "build list \<Rightarrow> (string \<times> string) list" where
  "edge_list bs = concat (map (\<lambda>b. map (\<lambda>d. (d, out b)) (deps b)) bs)"

definition edges :: "stmt list \<Rightarrow> (string \<times> string) set" where
  "edges g = set (edge_list (builds_of g))"

text \<open>What one node contributes to the graph: its name, its rule and its predecessors.\<close>

definition node :: "build \<Rightarrow> string \<times> string \<times> string list" where
  "node b = (out b, rule b, deps b)"

text \<open>
  The nodes of the kernel-headers chain, and the nodes that download, unpack, configure,
  build or install the compiler and the C library.
\<close>

definition kernel_nodes :: "string list" where
  "kernel_nodes =
     [''$linux_tarball'',
      ''$build_targets_dir/extract-linux'',
      ''$build_targets_dir/build-linux'',
      ''$build_targets_dir/install-linux'']"

definition compiler_libc_nodes :: "string list" where
  "compiler_libc_nodes =
     [''$gcc_tarball'',
      ''$build_targets_dir/extract-gcc'',
      ''$build_targets_dir/configure-gcc'',
      ''$build_targets_dir/build-gcc-all-gcc'',
      ''$build_targets_dir/build-gcc-libgcc-static'',
      ''$build_targets_dir/clean-gcc-libgcc-static'',
      ''$build_targets_dir/build-gcc-libgcc-shared'',
      ''$build_targets_dir/build-gcc'',
      ''$build_targets_dir/install-gcc'',
      ''$musl_tarball'',
      ''$build_targets_dir/extract-musl'',
      ''$build_targets_dir/configure-musl'',
      ''$build_targets_dir/install-musl-headers-dep'',
      ''$build_targets_dir/build-musl'',
      ''$build_targets_dir/install-musl-dep'',
      ''$build_targets_dir/install-musl'']"

section \<open>The specification's wording\<close>

text \<open>
  The patterns of the kernel-architecture table of the specification: a first component
  is documented when at least one of them matches it.
\<close>

definition documented_prefix :: "string \<Rightarrow> bool" where
  "documented_prefix c =
     (startswith c ''aarch64'' \<or> startswith c ''arm''
      \<or> (startswith c ''i'' \<and> endswith c ''86'')
      \<or> startswith c ''microblaze'' \<or> startswith c ''mips'' \<or> startswith c ''or1k''
      \<or> startswith c ''powerpc'' \<or> startswith c ''riscv'' \<or> startswith c ''s390''
      \<or> startswith c ''sh'' \<or> startswith c ''x86_64'')"

text \<open>
  The three groups of flags that follow the base flags, each as the specification
  describes it: the flags derived from the target, in the order fdpic, x32, ppc64, mips,
  s390x, float ABI; the host flag; the extra flags of the user.
\<close>

definition spec_arch_flags :: "string \<Rightarrow> string list" where
  "spec_arch_flags t =
     (if contains t ''fdpic'' then [''--enable-fdpic''] else [])
     @ (if startswith t ''x86_64'' \<and> endswith t ''x32'' then [''--with-abi=x32''] else [])
     @ (if contains t ''powerpc64'' then [''--with-abi=elfv2''] else [])
     @ (if contains t ''mips64'' \<or> contains t ''mipsisa64''
        then (if contains t ''n32'' then [''--with-abi=n32''] else [''--with-abi=64''])
        else [])
     @ (if contains t ''s390x'' then [''--with-long-double-128''] else [])
     @ (if endswith t ''sf'' then [''--with-float=soft'']
        else if endswith t ''hf'' then [''--with-float=hard''] else [])"

definition spec_host_flag :: "string option \<Rightarrow> string list" where
  "spec_host_flag h = (if truthy h then [''--host=$host''] else [])"

definition spec_user_flags :: "string option \<Rightarrow> string list" where
  "spec_user_flags u =
     (case u of None \<Rightarrow> [] | Some s \<Rightarrow> if s \<noteq> [] then str_split s CHR '' '' else [])"

text \<open>The order the specification gives: base, target-derived, host, user.\<close>

definition spec_gcc_flags :: "namespace \<Rightarrow> string list" where
  "spec_gcc_flags ns =
     gcc_base_flags @ spec_arch_flags (ns_target ns) @ spec_host_flag (ns_host ns)
     @ spec_user_flags (ns_gcc_flags ns)"

section \<open>Example runs\<close>

text \<open>
  The command line \<^verbatim>\<open>--target arm-linux-musleabihf\<close> with every default of the
  argument parser, and variations of it.
\<close>

definition example_ns :: namespace where
  "example_ns =
     \<lparr> ns_no_patches = False,
       ns_prefix = ''$root_dir/toolchain'',
       ns_host = None,
       ns_target = ''arm-linux-musleabihf'',
       ns_cc = ''$host-gcc'',
       ns_cxx = ''$host-g++'',
       ns_cc_build = ''gcc'',
       ns_cxx_build = ''g++'',
       ns_cc_flags = None,
       ns_cxx_flags = None,
       ns_ld_flags = None,
       ns_enable_cache = False,
       ns_binutils_flags = None,
       ns_gcc_flags = None,
       ns_gcc_with_isl = False,
       ns_binutils_version = ''2.40'',
       ns_gcc_version = ''13.1.0'',
       ns_gmp_version = ''6.2.1'',
       ns_isl_version = ''0.24'',
       ns_linux_version = ''6.3.5'',
       ns_mpc_version = ''1.3.1'',
       ns_mpfr_version = ''4.2.0'',
       ns_musl_version = ''1.2.4'' \<rparr>"

text \<open>The same with \<^verbatim>\<open>--host x86_64-w64-mingw32\<close>.\<close>

definition canadian_ns :: namespace where
  "canadian_ns = example_ns\<lparr>ns_host := Some ''x86_64-w64-mingw32''\<rparr>"

text \<open>\<^verbatim>\<open>--target loongarch64-linux-musl\<close>: no pattern of the table matches.\<close>

definition loongarch_ns :: namespace where
  "loongarch_ns = example_ns\<lparr>ns_target := ''loongarch64-linux-musl''\<rparr>"

text \<open>\<^verbatim>\<open>--target x86_64-linux-musl --gcc-with-isl\<close>\<close>

definition isl_ns :: namespace where
  "isl_ns = example_ns\<lparr>ns_target := ''x86_64-linux-musl'', ns_gcc_with_isl := True\<rparr>"

text \<open>\<^verbatim>\<open>--cc clang --cxx clang++ --enable-cache\<close>, without a host.\<close>

definition cache_ns :: namespace where
  "cache_ns = example_ns\<lparr>ns_cc := ''clang'', ns_cxx := ''clang++'', ns_enable_cache := True\<rparr>"

text \<open>
  A machine with the usual tools in \<^verbatim>\<open>/usr/bin\<close>, and a patch bundle with two patches
  for musl 1.2.4 and an empty directory for gcc 13.1.0.
\<close>

definition example_world :: world where
  "example_world =
     \<lparr> which = (\<lambda>cmd. if cmd \<in> set [''gcc'', ''g++'', ''make'', ''curl'', ''patch'', ''tar'']
                       then Some (''/usr/bin/'' @ cmd) else None),
       fs = (\<lambda>p. if p = patch_path (Patch ''musl'' ''1.2.4'')
                  then Dir [''fix-a.patch'', ''fix-b.patch'']
                  else if p = patch_path (Patch ''gcc'' ''13.1.0'') then Dir []
                  else Missing),
       cpu_count = ''8'',
       root_dir = ''/home/user/musl-toolchains'',
       platform_system = ''Linux'' \<rparr>"

text \<open>The same machine with \<^verbatim>\<open>sccache\<close> installed, and with \<^verbatim>\<open>ccache\<close> as well.\<close>

definition sccache_world :: world where
  "sccache_world =
     example_world\<lparr>which := (\<lambda>cmd. if cmd = ''sccache'' then Some ''/usr/bin/sccache''
                                     else which example_world cmd)\<rparr>"

definition ccache_world :: world where
  "ccache_world =
     sccache_world\<lparr>which := (\<lambda>cmd. if cmd = ''ccache'' then Some ''/usr/bin/ccache''
                                     else which sccache_world cmd)\<rparr>"

text \<open>The same machine with the compilers of the host \<^verbatim>\<open>x86_64-w64-mingw32\<close> installed.\<close>

definition mingw_world :: world where
  "mingw_world =
     example_world\<lparr>which := (\<lambda>cmd. if cmd \<in> set [''x86_64-w64-mingw32-gcc'',
                                                    ''x86_64-w64-mingw32-g++'']
                                     then Some (''/usr/bin/'' @ cmd)
                                     else which example_world cmd)\<rparr>"

section \<open>Closed forms used in the proofs\<close>

text \<open>
  The lines that the search for a make tool prints: the later names are tried only when
  the earlier ones are missing.
\<close>

definition make_lines :: "world \<Rightarrow> string list" where
  "make_lines w =
     snd (exists_cmd w ''make'' ''Checking for tool make'')
     # (if which w ''make'' \<noteq> None then []
        else snd (exists_cmd w ''gmake'' ''Checking for tool gmake'')
             # (if which w ''gmake'' \<noteq> None then []
                else [snd (exists_cmd w ''mingw32-make'' ''Checking for tool mingw32-make'')]))"

text \<open>
  The nodes of the graph, each with its rule and its predecessors, in the order written.
  Lemma \<open>ninja_nodes\<close> below proves that every build file has exactly these.
\<close>

definition graph_nodes :: "args \<Rightarrow> (string \<times> string \<times> string list) list" where
  "graph_nodes a =
     map (\<lambda>name. (''$'' @ name @ ''_tarball'', ''download-tarball'', [])) (download_targets a)
     @ map (\<lambda>name. (''$build_targets_dir/extract-'' @ name, ''extract-tar'',
                     [''$'' @ name @ ''_tarball''])) (download_targets a)
     @ [(''$build_targets_dir/configure-binutils'', ''configure-binutils'',
         [''$build_targets_dir/extract-binutils'']),
        (''$build_targets_dir/build-binutils'', ''build-binutils'',
         [''$build_targets_dir/configure-binutils'']),
        (''$build_targets_dir/install-binutils'', ''install-binutils'',
         [''$build_targets_dir/build-binutils''])]
     @ map (\<lambda>name. (''$build_targets_dir/move-'' @ name, ''move-directory'',
                     [''$build_targets_dir/extract-'' @ name])) (move_targets a)
     @ [(''$build_targets_dir/configure-gcc'', ''configure-gcc'', configure_gcc_implicit a),
        (''$build_targets_dir/build-gcc-all-gcc'', ''build-gcc-all-gcc'',
         [''$build_targets_dir/configure-gcc'']),
        (''$build_targets_dir/configure-musl'', ''configure-musl'',
         [''$build_targets_dir/extract-musl'', ''$build_targets_dir/build-gcc-all-gcc'']),
        (''$build_targets_dir/install-musl-headers-dep'', ''install-musl-headers-dep'',
         [''$build_targets_dir/configure-musl'']),
        (''$build_targets_dir/build-gcc-libgcc-static'', ''build-gcc-libgcc-static'',
         [''$build_targets_dir/install-musl-headers-dep'']),
        (''$build_targets_dir/build-musl'', ''build-musl'',
         [''$build_targets_dir/build-gcc-libgcc-static'']),
        (''$build_targets_dir/install-musl-dep'', ''install-musl-dep'',
         [''$build_targets_dir/build-musl'']),
        (''$build_targets_dir/install-musl'', ''install-musl'',
         [''$build_targets_dir/build-musl'']),
        (''$build_targets_dir/clean-gcc-libgcc-static'', ''clean-gcc-libgcc-static'',
         [''$build_targets_dir/install-musl-dep'']),
        (''$build_targets_dir/build-gcc-libgcc-shared'', ''build-gcc-libgcc-shared'',
         [''$build_targets_dir/clean-gcc-libgcc-static'']),
        (''$build_targets_dir/build-gcc'', ''build-gcc'',
         [''$build_targets_dir/build-gcc-libgcc-shared'']),
        (''$build_targets_dir/install-gcc'', ''install-gcc'',
         [''$build_targets_dir/build-gcc'']),
        (''$build_targets_dir/build-linux'', ''build-linux'',
         [''$build_targets_dir/extract-linux'']),
        (''$build_targets_dir/install-linux'', ''install-linux'',
         [''$build_targets_dir/build-linux'']),
        (''clean-build'', ''delete-directory'', [''$build_dir'']),
        (''clean-downloads'', ''delete-directory'', [''$download_dir'']),
        (''clean'', ''clean-all'', [''clean-build'', ''clean-downloads'']),
        (''install'', ''install-all'',
         [''$build_targets_dir/install-binutils'',
          ''$build_targets_dir/install-gcc'',
          ''$build_targets_dir/install-musl'',
          ''$build_targets_dir/install-linux''])]"

text \<open>
  The edges of the graph, with or without ISL. Lemma \<open>ninja_edge_list\<close> below proves
  that every build file has exactly these.
\<close>

definition graph_edges :: "bool \<Rightarrow> (string \<times> string) list" where
  "graph_edges with_isl =
     [(''$binutils_tarball'', ''$build_targets_dir/extract-binutils''),
      (''$gcc_tarball'', ''$build_targets_dir/extract-gcc''),
      (''$gmp_tarball'', ''$build_targets_dir/extract-gmp'')]
     @ (if with_isl then [(''$isl_tarball'', ''$build_targets_dir/extract-isl'')] else [])
     @ [(''$linux_tarball'', ''$build_targets_dir/extract-linux''),
        (''$mpc_tarball'', ''$build_targets_dir/extract-mpc''),
        (''$mpfr_tarball'', ''$build_targets_dir/extract-mpfr''),
        (''$musl_tarball'', ''$build_targets_dir/extract-musl''),
        (''$build_targets_dir/extract-binutils'', ''$build_targets_dir/configure-binutils''),
        (''$build_targets_dir/configure-binutils'', ''$build_targets_dir/build-binutils''),
        (''$build_targets_dir/build-binutils'', ''$build_targets_dir/install-binutils''),
        (''$build_targets_dir/extract-gmp'', ''$build_targets_dir/move-gmp'')]
     @ (if with_isl then [(''$build_targets_dir/extract-isl'', ''$build_targets_dir/move-isl'')] else [])
     @ [(''$build_targets_dir/extract-mpc'', ''$build_targets_dir/move-mpc''),
        (''$build_targets_dir/extract-mpfr'', ''$build_targets_dir/move-mpfr''),
        (''$build_targets_dir/extract-gcc'', ''$build_targets_dir/configure-gcc''),
        (''$build_targets_dir/move-gmp'', ''$build_targets_dir/configure-gcc'')]
     @ (if with_isl then [(''$build_targets_dir/move-isl'', ''$build_targets_dir/configure-gcc'')] else [])
     @ [(''$build_targets_dir/move-mpc'', ''$build_targets_dir/configure-gcc''),
        (''$build_targets_dir/move-mpfr'', ''$build_targets_dir/configure-gcc''),
        (''$build_targets_dir/build-binutils'', ''$build_targets_dir/configure-gcc''),
        (''$build_targets_dir/configure-gcc'', ''$build_targets_dir/build-gcc-all-gcc''),
        (''$build_targets_dir/extract-musl'', ''$build_targets_dir/configure-musl''),
        (''$build_targets_dir/build-gcc-all-gcc'', ''$build_targets_dir/configure-musl''),
        (''$build_targets_dir/configure-musl'', ''$build_targets_dir/install-musl-headers-dep''),
        (''$build_targets_dir/install-musl-headers-dep'', ''$build_targets_dir/build-gcc-libgcc-static''),
        (''$build_targets_dir/build-gcc-libgcc-static'', ''$build_targets_dir/build-musl''),
        (''$build_targets_dir/build-musl'', ''$build_targets_dir/install-musl-dep''),
        (''$build_targets_dir/build-musl'', ''$build_targets_dir/install-musl''),
        (''$build_targets_dir/install-musl-dep'', ''$build_targets_dir/clean-gcc-libgcc-static''),
        (''$build_targets_dir/clean-gcc-libgcc-static'', ''$build_targets_dir/build-gcc-libgcc-shared''),
        (''$build_targets_dir/build-gcc-libgcc-shared'', ''$build_targets_dir/build-gcc''),
        (''$build_targets_dir/build-gcc'', ''$build_targets_dir/install-gcc''),
        (''$build_targets_dir/extract-linux'', ''$build_targets_dir/build-linux''),
        (''$build_targets_dir/build-linux'', ''$build_targets_dir/install-linux''),
        (''$build_dir'', ''clean-build''),
        (''$download_dir'', ''clean-downloads''),
        (''clean-build'', ''clean''),
        (''clean-downloads'', ''clean''),
        (''$build_targets_dir/install-binutils'', ''install''),
        (''$build_targets_dir/install-gcc'', ''install''),
        (''$build_targets_dir/install-musl'', ''install''),
        (''$build_targets_dir/install-linux'', ''install'')]"

section \<open>Facts about the string operations\<close>

lemma startswith_Cons:
  "startswith s (p # ps) = (s \<noteq> [] \<and> hd s = p \<and> startswith (tl s) ps)"
  by (cases s) auto

lemma str_split_nonempty: "str_split s sep \<noteq> []"
  by (induction s) (auto split: list.splits)

section \<open>The kernel architecture\<close>

text \<open>
  C4. Whenever a pattern of the table matches the first component of the target, the
  kernel architecture is the entry of that pattern: \<open>aarch64*\<close> gives arm64,
  \<open>arm*\<close> gives arm, a component that starts with \<open>i\<close> and ends with \<open>86\<close> gives
  x86, and so on down to \<open>x86_64*\<close>. The comparison is by characters, so it is
  case-sensitive. No two patterns match the same component, so each row holds on its
  own and the first match is the only one.
\<close>

theorem arch_table:
  "(startswith (first_component t) ''aarch64'' \<longrightarrow> arch t = ''arm64'')
   \<and> (startswith (first_component t) ''arm'' \<longrightarrow> arch t = ''arm'')
   \<and> (startswith (first_component t) ''i'' \<and> endswith (first_component t) ''86''
        \<longrightarrow> arch t = ''x86'')
   \<and> (startswith (first_component t) ''microblaze'' \<longrightarrow> arch t = ''microblaze'')
   \<and> (startswith (first_component t) ''mips'' \<longrightarrow> arch t = ''mips'')
   \<and> (startswith (first_component t) ''or1k'' \<longrightarrow> arch t = ''openrisc'')
   \<and> (startswith (first_component t) ''powerpc'' \<longrightarrow> arch t = ''powerpc'')
   \<and> (startswith (first_component t) ''riscv'' \<longrightarrow> arch t = ''riscv'')
   \<and> (startswith (first_component t) ''s390'' \<longrightarrow> arch t = ''s390'')
   \<and> (startswith (first_component t) ''sh'' \<longrightarrow> arch t = ''sh'')
   \<and> (startswith (first_component t) ''x86_64'' \<longrightarrow> arch t = ''x86_64'')"
  unfolding arch_def Let_def
  by (auto simp: startswith_Cons)

text \<open>One target for every row of the table; the second is in upper case and matches none.\<close>

theorem arch_table_witness:
  "arch ''aarch64-linux-musl'' = ''arm64''
   \<and> arch ''armv7l-linux-musleabihf'' = ''arm''
   \<and> arch ''i686-linux-musl'' = ''x86''
   \<and> arch ''microblazeel-linux-musl'' = ''microblaze''
   \<and> arch ''mips64el-linux-musl'' = ''mips''
   \<and> arch ''or1k-linux-musl'' = ''openrisc''
   \<and> arch ''powerpc64le-linux-musl'' = ''powerpc''
   \<and> arch ''riscv64-linux-musl'' = ''riscv''
   \<and> arch ''s390x-linux-musl'' = ''s390''
   \<and> arch ''sh4-linux-musl'' = ''sh''
   \<and> arch ''x86_64-linux-muslx32'' = ''x86_64''
   \<and> \<not> startswith (first_component ''ARM-linux-musl'') ''arm''"
  using arch_table[of "''aarch64-linux-musl''"] arch_table[of "''armv7l-linux-musleabihf''"]
    arch_table[of "''i686-linux-musl''"] arch_table[of "''microblazeel-linux-musl''"]
    arch_table[of "''mips64el-linux-musl''"] arch_table[of "''or1k-linux-musl''"]
    arch_table[of "''powerpc64le-linux-musl''"] arch_table[of "''riscv64-linux-musl''"]
    arch_table[of "''s390x-linux-musl''"] arch_table[of "''sh4-linux-musl''"]
    arch_table[of "''x86_64-linux-muslx32''"]
  by (simp add: first_component_def endswith_def)

lemma Inr_projr: "\<not> isl x \<Longrightarrow> x = Inr (projr x)"
  by (cases x) simp_all

lemma ninja_isl: "isl (ninja a w) = isl (ninja_extracts a w (name_version_tuples a))"
  by (simp add: ninja_def split: sum.splits)

lemma arch_variable_written:
  "ninja a w = Inr g \<Longrightarrow> Variable ''arch'' (Some (arch (target a))) \<in> set g"
  by (auto simp: ninja_def ninja_linux_def split: sum.splits)

text \<open>
  C1, as the specification states it, fails: for the target
  \<^verbatim>\<open>loongarch64-linux-musl\<close> no pattern of the table matches the first component,
  and yet the run ends without an error and writes \<^verbatim>\<open>arch = loongarch64\<close>.
\<close>

theorem unsupported_arch_counterexample:
  "\<not> documented_prefix (first_component (ns_target loongarch_ns))
   \<and> \<not> isl (main loongarch_ns example_world)
   \<and> Variable ''arch'' (Some ''loongarch64'') \<in> set (projr (main loongarch_ns example_world))"
  by code_simp

text \<open>
  C1, amended. When no pattern of the table matches the first component of the target,
  nothing fails on that account: the kernel architecture is the first component itself,
  the build file is written unless a patch directory cannot be listed, and it sets the
  variable \<^verbatim>\<open>arch\<close> to that component.
\<close>

theorem unmatched_arch_kept:
  assumes "\<not> documented_prefix (first_component (target a))"
  shows "arch (target a) = first_component (target a)
       \<and> isl (ninja a w) = isl (ninja_extracts a w (name_version_tuples a))
       \<and> (\<forall>g. ninja a w = Inr g \<longrightarrow>
              Variable ''arch'' (Some (first_component (target a))) \<in> set g)"
proof -
  have a: "arch (target a) = first_component (target a)"
    using assms unfolding documented_prefix_def arch_def Let_def by auto
  have "Variable ''arch'' (Some (first_component (target a))) \<in> set g"
    if "ninja a w = Inr g" for g
    using arch_variable_written[OF that] a by simp
  with a ninja_isl show ?thesis by blast
qed

theorem unmatched_arch_kept_witness:
  "\<not> documented_prefix (first_component (target (init loongarch_ns)))
   \<and> arch (target (init loongarch_ns)) = ''loongarch64''
   \<and> \<not> isl (ninja (init loongarch_ns) example_world)
   \<and> Variable ''arch'' (Some ''loongarch64'')
        \<in> set (projr (ninja (init loongarch_ns) example_world))"
proof -
  have h: "\<not> documented_prefix (first_component (target (init loongarch_ns)))"
    by code_simp
  have c: "first_component (target (init loongarch_ns)) = ''loongarch64''"
    by code_simp
  have ok: "\<not> isl (ninja_extracts (init loongarch_ns) example_world
                    (name_version_tuples (init loongarch_ns)))"
    by code_simp
  from unmatched_arch_kept[OF h, of example_world] ok Inr_projr[of "ninja (init loongarch_ns) example_world"]
  show ?thesis using h c by auto
qed

section \<open>The configure flags of gcc\<close>

lemma if_append_both: "(if c then fl @ xs else fl @ ys) = fl @ (if c then xs else ys)"
  by simp

lemma if_append_one: "(if c then fl @ xs else fl) = fl @ (if c then xs else [])"
  by simp

lemma user_flags_split:
  "(case u of None \<Rightarrow> fl | Some s \<Rightarrow> fl @ (if s \<noteq> [] then str_split s CHR '' '' else []))
     = fl @ spec_user_flags u"
  by (simp add: spec_user_flags_def split: option.splits)

lemma init_gcc_flags_closed:
  "init_gcc_flags ns =
     gcc_base_flags @ spec_host_flag (ns_host ns) @ spec_arch_flags (ns_target ns)
     @ spec_user_flags (ns_gcc_flags ns)"
  unfolding init_gcc_flags_def spec_host_flag_def spec_arch_flags_def Let_def
  apply (simp only: if_append_one if_append_both user_flags_split)
  apply (simp only: append_assoc)
  done

text \<open>
  C3, as the specification states it, fails: with the host \<^verbatim>\<open>x86_64-w64-mingw32\<close> and
  the target \<^verbatim>\<open>arm-linux-musleabihf\<close> the flag \<^verbatim>\<open>--host=$host\<close> comes before
  \<^verbatim>\<open>--with-float=hard\<close>, not after it.
\<close>

theorem gcc_flags_order_counterexample:
  "gcc_flags (init canadian_ns) = gcc_base_flags @ [''--host=$host'', ''--with-float=hard'']
   \<and> spec_gcc_flags canadian_ns = gcc_base_flags @ [''--with-float=hard'', ''--host=$host'']
   \<and> gcc_flags (init canadian_ns) \<noteq> spec_gcc_flags canadian_ns"
  by code_simp

text \<open>
  C3, amended. The configure flags of gcc are, in this order: the base flags; the host
  flag when a non-empty host is configured; the flags derived from the target, in the
  order fdpic, x32, ppc64, mips, s390x, float ABI; the extra flags of the user, split at
  every space.
\<close>

theorem gcc_flags_order:
  "gcc_flags (init ns) =
     gcc_base_flags @ spec_host_flag (ns_host ns) @ spec_arch_flags (ns_target ns)
     @ spec_user_flags (ns_gcc_flags ns)"
  by (simp add: init_def init_gcc_flags_closed)

theorem gcc_flags_order_witness:
  "gcc_flags (init (canadian_ns\<lparr>ns_gcc_flags := Some ''--enable-lto --with-float=soft''\<rparr>)) =
     gcc_base_flags @ [''--host=$host''] @ [''--with-float=hard'']
     @ [''--enable-lto'', ''--with-float=soft'']"
proof -
  have "spec_host_flag (ns_host canadian_ns) = [''--host=$host'']"
    and "spec_arch_flags (ns_target canadian_ns) = [''--with-float=hard'']"
    and "spec_user_flags (Some ''--enable-lto --with-float=soft'')
           = [''--enable-lto'', ''--with-float=soft'']"
    by code_simp+
  then show ?thesis
    using gcc_flags_order[of "canadian_ns\<lparr>ns_gcc_flags := Some ''--enable-lto --with-float=soft''\<rparr>"]
    by simp
qed

section \<open>Tool discovery\<close>

lemma check_simps:
  "fst (check w cmd msg r) = (which w cmd \<noteq> None)"
  "failed (snd (check w cmd msg r)) = failed r"
  "self_args (snd (check w cmd msg r)) = self_args r"
  "printed (snd (check w cmd msg r)) = printed r @ [snd (exists_cmd w cmd msg)]"
  by (auto simp: check_def exists_cmd_def split: option.splits)

lemma tools_build_simps:
  "self_args (tools_build w r) = self_args r"
  "failed (tools_build w r) =
     (failed r \<or> which w (cc_build (self_args r)) = None
      \<or> which w (cxx_build (self_args r)) = None)"
  "printed (tools_build w r) =
     printed r @ [snd (exists_cmd w (cc_build (self_args r)) ''Checking for build C compiler''),
                  snd (exists_cmd w (cxx_build (self_args r)) ''Checking for build C++ compiler'')]"
  by (auto simp: tools_build_def Let_def case_prod_beta check_simps)

lemma tools_host_no_host:
  assumes "\<not> truthy (host (self_args r))"
  shows "self_args (tools_host w r) =
           (self_args r)\<lparr>cc := cc_build (self_args r), cxx := cxx_build (self_args r)\<rparr>"
    and "failed (tools_host w r) = failed r"
    and "printed (tools_host w r) = printed r"
  using assms by (simp_all add: tools_host_def Let_def)

lemma tools_cache_off:
  "\<not> enable_cache (self_args r) \<Longrightarrow> tools_cache w r = r"
  by (simp add: tools_cache_def)

lemma tools_cache_failed: "failed (tools_cache w r) = failed r"
  by (simp add: tools_cache_def Let_def case_prod_beta check_simps split: option.splits)

lemma tools_cache_ccache:
  assumes "enable_cache (self_args r)" "which w ''ccache'' \<noteq> None"
  shows "self_args (tools_cache w r) =
           (self_args r)\<lparr>cc := ''ccache '' @ cc (self_args r),
                          cxx := ''ccache '' @ cxx (self_args r),
                          cc_build := ''ccache '' @ cc_build (self_args r),
                          cxx_build := ''ccache '' @ cxx_build (self_args r)\<rparr>"
    and "printed (tools_cache w r) =
           printed r @ [snd (exists_cmd w ''ccache'' ''Checking for tool ccache''),
                        ''Using ccache as compiler wrapper'']"
  using assms
  by (simp_all add: tools_cache_def Let_def case_prod_beta check_simps)

lemma tools_cache_sccache:
  assumes "enable_cache (self_args r)" "which w ''ccache'' = None"
    "which w ''sccache'' \<noteq> None"
  shows "self_args (tools_cache w r) =
           (self_args r)\<lparr>cc := ''sccache '' @ cc (self_args r),
                          cxx := ''sccache '' @ cxx (self_args r),
                          cc_build := ''sccache '' @ cc_build (self_args r),
                          cxx_build := ''sccache '' @ cxx_build (self_args r)\<rparr>"
    and "printed (tools_cache w r) =
           printed r @ [snd (exists_cmd w ''ccache'' ''Checking for tool ccache''),
                        snd (exists_cmd w ''sccache'' ''Checking for tool sccache''),
                        ''Using sccache as compiler wrapper'']"
  using assms
  by (simp_all add: tools_cache_def Let_def case_prod_beta check_simps)

lemma tools_cache_none:
  assumes "enable_cache (self_args r)" "which w ''ccache'' = None"
    "which w ''sccache'' = None"
  shows "self_args (tools_cache w r) = self_args r"
    and "printed (tools_cache w r) =
           printed r @ [snd (exists_cmd w ''ccache'' ''Checking for tool ccache''),
                        snd (exists_cmd w ''sccache'' ''Checking for tool sccache'')]"
  using assms
  by (simp_all add: tools_cache_def Let_def case_prod_beta check_simps)

lemma tools_make_simps:
  "failed (tools_make w r) =
     (failed r \<or> (which w ''make'' = None \<and> which w ''gmake'' = None
                   \<and> which w ''mingw32-make'' = None))"
  "cc (self_args (tools_make w r)) = cc (self_args r)"
  "cxx (self_args (tools_make w r)) = cxx (self_args r)"
  "cc_build (self_args (tools_make w r)) = cc_build (self_args r)"
  "cxx_build (self_args (tools_make w r)) = cxx_build (self_args r)"
  "printed (tools_make w r) = printed r @ make_lines w"
  by (auto simp: tools_make_def make_lines_def Let_def case_prod_beta check_simps)

lemma tools_rest_simps:
  "self_args (tools_rest w r) = self_args r"
  "failed (tools_rest w r) =
     (failed r \<or> which w ''curl'' = None \<or> which w ''patch'' = None \<or> which w ''tar'' = None)"
  "printed (tools_rest w r) =
     printed r @ [snd (exists_cmd w ''curl'' ''Checking for tool curl''),
                  snd (exists_cmd w ''patch'' ''Checking for tool patch''),
                  snd (exists_cmd w ''tar'' ''Checking for tool tar'')]"
  by (auto simp: tools_rest_def Let_def case_prod_beta check_simps)

lemma try_get_tools_unfold:
  "try_get_tools a w =
     tools_rest w (tools_make w (tools_cache w (tools_host w
       (tools_build w \<lparr>failed = False, self_args = a, printed = []\<rparr>))))"
  by (simp add: try_get_tools_def Let_def)

lemma tools_host_fields:
  "cc_build (self_args (tools_host w r)) = cc_build (self_args r)"
  "cxx_build (self_args (tools_host w r)) = cxx_build (self_args r)"
  "enable_cache (self_args (tools_host w r)) = enable_cache (self_args r)"
  "cc (self_args (tools_host w r)) =
     (if truthy (host (self_args r))
      then str_lstrip (str_replace (cc (self_args r)) ''$host''
             (case host (self_args r) of Some h \<Rightarrow> h | None \<Rightarrow> [])) ''-''
      else cc_build (self_args r))"
  "cxx (self_args (tools_host w r)) =
     (if truthy (host (self_args r))
      then str_lstrip (str_replace (cxx (self_args r)) ''$host''
             (case host (self_args r) of Some h \<Rightarrow> h | None \<Rightarrow> [])) ''-''
      else cxx_build (self_args r))"
  "failed (tools_host w r) =
     (if truthy (host (self_args r))
      then (failed r \<or> which w (cc (self_args (tools_host w r))) = None
            \<or> which w (cxx (self_args (tools_host w r))) = None)
      else failed r)"
  by (auto simp: tools_host_def Let_def case_prod_beta check_simps)

lemma tools_cache_keeps_equal:
  assumes "cc (self_args r) = cc_build (self_args r)" "cxx (self_args r) = cxx_build (self_args r)"
  shows "cc (self_args (tools_cache w r)) = cc_build (self_args (tools_cache w r))
       \<and> cxx (self_args (tools_cache w r)) = cxx_build (self_args (tools_cache w r))"
  using assms
  by (simp add: tools_cache_def Let_def case_prod_beta check_simps split: option.splits)

lemma exists_cmd_startswith:
  "startswith (snd (exists_cmd w cmd msg)) p = startswith (msg @ '': '' @ cmd @ '' ('' @ (case which w cmd of Some path \<Rightarrow> path @ '')'' | None \<Rightarrow> ''doesn't exists)'')) p"
  by (simp add: exists_cmd_def split: option.splits)

lemma tools_cache_printed_not_host:
  assumes "\<forall>l\<in>set (printed r). \<not> startswith l ''Checking for host''"
  shows "\<forall>l\<in>set (printed (tools_cache w r)). \<not> startswith l ''Checking for host''"
  using assms
  by (auto simp: tools_cache_def Let_def case_prod_beta check_simps exists_cmd_startswith split: option.splits if_splits)

lemma make_lines_not_host: "\<forall>l\<in>set (make_lines w). \<not> startswith l ''Checking for host''"
  by (auto simp: make_lines_def exists_cmd_startswith)

lemma make_lines_not_sccache:
  "\<forall>l\<in>set (make_lines w). \<not> startswith l ''Checking for tool sccache''"
  by (auto simp: make_lines_def exists_cmd_startswith)

text \<open>
  C9. When no host is configured (\<^verbatim>\<open>--host\<close> absent or empty), tool discovery leaves
  the host C and C++ compilers equal to the build C and C++ compilers (both with the
  wrapper in front when one is chosen, and the build compilers as given when caching is
  off); the values given with \<^verbatim>\<open>--cc\<close> and \<^verbatim>\<open>--cxx\<close> have no effect on the
  result; and no line of the output reports a check for a host compiler.
\<close>

theorem no_host_uses_build_compilers:
  assumes "\<not> truthy (host a)"
  shows "cc (self_args (try_get_tools a w)) = cc_build (self_args (try_get_tools a w))
       \<and> cxx (self_args (try_get_tools a w)) = cxx_build (self_args (try_get_tools a w))
       \<and> (\<not> enable_cache a \<longrightarrow>
            cc (self_args (try_get_tools a w)) = cc_build a
            \<and> cxx (self_args (try_get_tools a w)) = cxx_build a)
       \<and> try_get_tools (a\<lparr>cc := x, cxx := y\<rparr>) w = try_get_tools a w
       \<and> (\<forall>l\<in>set (printed (try_get_tools a w)). \<not> startswith l ''Checking for host'')"
proof -
  define r0 where "r0 = \<lparr>failed = False, self_args = a, printed = []\<rparr>"
  define r1 where "r1 = tools_host w (tools_build w r0)"
  have nohost: "\<not> truthy (host (self_args (tools_build w r0)))"
    using assms by (simp add: tools_build_simps r0_def)
  have r1_self: "self_args r1 = a\<lparr>cc := cc_build a, cxx := cxx_build a\<rparr>"
    unfolding r1_def using tools_host_no_host(1)[OF nohost]
    by (simp add: tools_build_simps r0_def)
  have tg: "try_get_tools a w = tools_rest w (tools_make w (tools_cache w r1))"
    by (simp add: try_get_tools_unfold r1_def r0_def)
  have eq1: "cc (self_args (tools_cache w r1)) = cc_build (self_args (tools_cache w r1))
       \<and> cxx (self_args (tools_cache w r1)) = cxx_build (self_args (tools_cache w r1))"
    by (rule tools_cache_keeps_equal) (simp_all add: r1_self)
  have c1: "cc (self_args (try_get_tools a w)) = cc_build (self_args (try_get_tools a w))"
    and c2: "cxx (self_args (try_get_tools a w)) = cxx_build (self_args (try_get_tools a w))"
    using eq1 by (simp_all add: tg tools_rest_simps tools_make_simps)
  have c3: "\<not> enable_cache a \<longrightarrow>
            cc (self_args (try_get_tools a w)) = cc_build a
            \<and> cxx (self_args (try_get_tools a w)) = cxx_build a"
    by (simp add: tg tools_rest_simps tools_make_simps tools_cache_off r1_self)
  define r0' where "r0' = \<lparr>failed = False, self_args = a\<lparr>cc := x, cxx := y\<rparr>, printed = []\<rparr>"
  have nohost': "\<not> truthy (host (self_args (tools_build w r0')))"
    using assms by (simp add: tools_build_simps r0'_def)
  have "tools_host w (tools_build w r0') = r1"
    unfolding r1_def
    using tools_host_no_host[OF nohost'] tools_host_no_host[OF nohost]
    by (intro run.equality) (simp_all add: tools_build_simps r0_def r0'_def)
  then have c4: "try_get_tools (a\<lparr>cc := x, cxx := y\<rparr>) w = try_get_tools a w"
    by (simp add: try_get_tools_unfold r0'_def r1_def r0_def)
  have p1: "\<forall>l\<in>set (printed r1). \<not> startswith l ''Checking for host''"
    unfolding r1_def using tools_host_no_host(3)[OF nohost]
    by (simp add: tools_build_simps r0_def exists_cmd_startswith)
  have c5: "\<forall>l\<in>set (printed (try_get_tools a w)). \<not> startswith l ''Checking for host''"
    using tools_cache_printed_not_host[OF p1, of w] make_lines_not_host[of w]
    by (auto simp: tg tools_rest_simps tools_make_simps exists_cmd_startswith)
  from c1 c2 c3 c4 c5 show ?thesis by blast
qed

theorem no_host_uses_build_compilers_witness:
  "\<not> truthy (host (init cache_ns))
   \<and> cc (init cache_ns) = ''clang''
   \<and> cc (self_args (try_get_tools (init cache_ns) sccache_world)) = ''sccache gcc''
   \<and> cxx (self_args (try_get_tools (init cache_ns) sccache_world)) = ''sccache g++''
   \<and> try_get_tools ((init cache_ns)\<lparr>cc := ''tcc'', cxx := ''zig c++''\<rparr>) sccache_world
       = try_get_tools (init cache_ns) sccache_world
   \<and> printed (try_get_tools (init cache_ns) sccache_world) \<noteq> []
   \<and> filter (\<lambda>l. startswith l ''Checking for host'')
        (printed (try_get_tools (init cache_ns) sccache_world)) = []"
proof -
  have h: "\<not> truthy (host (init cache_ns))"
    by code_simp
  have b: "cc_build (self_args (try_get_tools (init cache_ns) sccache_world)) = ''sccache gcc''"
    "cxx_build (self_args (try_get_tools (init cache_ns) sccache_world)) = ''sccache g++''"
    "cc (init cache_ns) = ''clang''"
    "printed (try_get_tools (init cache_ns) sccache_world) \<noteq> []"
    by code_simp+
  from no_host_uses_build_compilers[OF h, where w = sccache_world and x = "''tcc''"
      and y = "''zig c++''"] h b
  show ?thesis by (simp add: filter_empty_conv)
qed

lemma before_cache_same:
  fixes a :: args and w :: world
  defines "r \<equiv> tools_host w (tools_build w \<lparr>failed = False, self_args = a, printed = []\<rparr>)"
    and "r' \<equiv> tools_host w (tools_build w
                 \<lparr>failed = False, self_args = a\<lparr>enable_cache := False\<rparr>, printed = []\<rparr>)"
  shows "cc (self_args r') = cc (self_args r)"
    and "cxx (self_args r') = cxx (self_args r)"
    and "cc_build (self_args r') = cc_build (self_args r)"
    and "cxx_build (self_args r') = cxx_build (self_args r)"
    and "failed r' = failed r"
    and "enable_cache (self_args r) = enable_cache a"
    and "\<not> enable_cache (self_args r')"
  unfolding r_def r'_def
  by (simp_all add: tools_host_fields tools_build_simps)

text \<open>
  C10. With the compiler cache enabled, compare the run with the same run without it.
  The returned failure flag is the same, so a missing wrapper is never a missing tool.
  If \<^verbatim>\<open>ccache\<close> is on the path, all four compilers get \<^verbatim>\<open>ccache\<close> and a space in
  front; if it is not and \<^verbatim>\<open>sccache\<close> is, they get \<^verbatim>\<open>sccache\<close>; if neither is,
  they are unchanged. A line that reports a check for \<^verbatim>\<open>sccache\<close> is printed exactly
  when \<^verbatim>\<open>ccache\<close> is absent.
\<close>

theorem cache_wrapper:
  fixes a :: args and w :: world
  defines "r \<equiv> try_get_tools a w"
    and "r0 \<equiv> try_get_tools (a\<lparr>enable_cache := False\<rparr>) w"
  assumes on: "enable_cache a"
  shows "failed r = failed r0
       \<and> (which w ''ccache'' \<noteq> None \<longrightarrow>
            cc (self_args r) = ''ccache '' @ cc (self_args r0)
            \<and> cxx (self_args r) = ''ccache '' @ cxx (self_args r0)
            \<and> cc_build (self_args r) = ''ccache '' @ cc_build (self_args r0)
            \<and> cxx_build (self_args r) = ''ccache '' @ cxx_build (self_args r0))
       \<and> (which w ''ccache'' = None \<and> which w ''sccache'' \<noteq> None \<longrightarrow>
            cc (self_args r) = ''sccache '' @ cc (self_args r0)
            \<and> cxx (self_args r) = ''sccache '' @ cxx (self_args r0)
            \<and> cc_build (self_args r) = ''sccache '' @ cc_build (self_args r0)
            \<and> cxx_build (self_args r) = ''sccache '' @ cxx_build (self_args r0))
       \<and> (which w ''ccache'' = None \<and> which w ''sccache'' = None \<longrightarrow>
            cc (self_args r) = cc (self_args r0)
            \<and> cxx (self_args r) = cxx (self_args r0)
            \<and> cc_build (self_args r) = cc_build (self_args r0)
            \<and> cxx_build (self_args r) = cxx_build (self_args r0))
       \<and> ((\<exists>l\<in>set (printed r). startswith l ''Checking for tool sccache'')
            = (which w ''ccache'' = None))"
proof -
  define r1 where "r1 = tools_host w (tools_build w \<lparr>failed = False, self_args = a, printed = []\<rparr>)"
  define r1' where "r1' = tools_host w (tools_build w
                 \<lparr>failed = False, self_args = a\<lparr>enable_cache := False\<rparr>, printed = []\<rparr>)"
  note same = before_cache_same[of w a, folded r1_def r1'_def]
  have r: "r = tools_rest w (tools_make w (tools_cache w r1))"
    by (simp add: r_def try_get_tools_unfold r1_def)
  have r0: "r0 = tools_rest w (tools_make w r1')"
    using same(7) by (simp add: r0_def try_get_tools_unfold r1'_def tools_cache_off)
  have en: "enable_cache (self_args r1)" using same(6) on by simp
  have f: "failed r = failed r0"
    by (simp add: r r0 tools_rest_simps tools_make_simps tools_cache_failed same)
  have a1: "which w ''ccache'' \<noteq> None \<longrightarrow>
            cc (self_args r) = ''ccache '' @ cc (self_args r0)
            \<and> cxx (self_args r) = ''ccache '' @ cxx (self_args r0)
            \<and> cc_build (self_args r) = ''ccache '' @ cc_build (self_args r0)
            \<and> cxx_build (self_args r) = ''ccache '' @ cxx_build (self_args r0)"
    using tools_cache_ccache(1)[OF en, of w]
    by (simp add: r r0 tools_rest_simps tools_make_simps same)
  have a2: "which w ''ccache'' = None \<and> which w ''sccache'' \<noteq> None \<longrightarrow>
            cc (self_args r) = ''sccache '' @ cc (self_args r0)
            \<and> cxx (self_args r) = ''sccache '' @ cxx (self_args r0)
            \<and> cc_build (self_args r) = ''sccache '' @ cc_build (self_args r0)
            \<and> cxx_build (self_args r) = ''sccache '' @ cxx_build (self_args r0)"
    using tools_cache_sccache(1)[OF en, of w]
    by (simp add: r r0 tools_rest_simps tools_make_simps same)
  have a3: "which w ''ccache'' = None \<and> which w ''sccache'' = None \<longrightarrow>
            cc (self_args r) = cc (self_args r0)
            \<and> cxx (self_args r) = cxx (self_args r0)
            \<and> cc_build (self_args r) = cc_build (self_args r0)
            \<and> cxx_build (self_args r) = cxx_build (self_args r0)"
    using tools_cache_none(1)[OF en, of w]
    by (simp add: r r0 tools_rest_simps tools_make_simps same)
  have p1: "\<forall>l\<in>set (printed r1). \<not> startswith l ''Checking for tool sccache''"
    by (auto simp: r1_def tools_host_def Let_def case_prod_beta check_simps tools_build_simps
        exists_cmd_startswith)
  have pc: "(\<exists>l\<in>set (printed (tools_cache w r1)). startswith l ''Checking for tool sccache'')
            = (which w ''ccache'' = None)"
  proof (cases "which w ''ccache'' = None")
    case False
    then show ?thesis
      using p1 tools_cache_ccache(2)[OF en, of w]
      by (auto simp: exists_cmd_startswith)
  next
    case True
    show ?thesis
    proof (cases "which w ''sccache'' = None")
      case True
      with \<open>which w ''ccache'' = None\<close> show ?thesis
        using tools_cache_none(2)[OF en, of w]
        by (auto simp: exists_cmd_startswith)
    next
      case False
      with \<open>which w ''ccache'' = None\<close> show ?thesis
        using tools_cache_sccache(2)[OF en, of w]
        by (auto simp: exists_cmd_startswith)
    qed
  qed
  have a4: "(\<exists>l\<in>set (printed r). startswith l ''Checking for tool sccache'')
            = (which w ''ccache'' = None)"
    using pc make_lines_not_sccache[of w]
    by (auto simp: r tools_rest_simps tools_make_simps exists_cmd_startswith)
  from f a1 a2 a3 a4 show ?thesis by blast
qed

theorem cache_wrapper_witness:
  "enable_cache (init cache_ns)
   \<and> which ccache_world ''ccache'' \<noteq> None
   \<and> cc_build (self_args (try_get_tools (init cache_ns) ccache_world)) = ''ccache gcc''
   \<and> cxx (self_args (try_get_tools (init cache_ns) ccache_world)) = ''ccache g++''
   \<and> \<not> (\<exists>l\<in>set (printed (try_get_tools (init cache_ns) ccache_world)).
           startswith l ''Checking for tool sccache'')
   \<and> which sccache_world ''ccache'' = None \<and> which sccache_world ''sccache'' \<noteq> None
   \<and> cc_build (self_args (try_get_tools (init cache_ns) sccache_world)) = ''sccache gcc''
   \<and> cxx (self_args (try_get_tools (init cache_ns) sccache_world)) = ''sccache g++''
   \<and> (\<exists>l\<in>set (printed (try_get_tools (init cache_ns) sccache_world)).
           startswith l ''Checking for tool sccache'')
   \<and> which example_world ''ccache'' = None \<and> which example_world ''sccache'' = None
   \<and> cc_build (self_args (try_get_tools (init cache_ns) example_world)) = ''gcc''
   \<and> cxx (self_args (try_get_tools (init cache_ns) example_world)) = ''g++''
   \<and> \<not> failed (try_get_tools (init cache_ns) example_world)"
proof -
  have on: "enable_cache (init cache_ns)"
    by code_simp
  have w: "which ccache_world ''ccache'' \<noteq> None"
    "which sccache_world ''ccache'' = None" "which sccache_world ''sccache'' \<noteq> None"
    "which example_world ''ccache'' = None" "which example_world ''sccache'' = None"
    by code_simp+
  have off:
    "cc_build (self_args (try_get_tools (init cache_ns\<lparr>enable_cache := False\<rparr>) ccache_world)) = ''gcc''"
    "cxx (self_args (try_get_tools (init cache_ns\<lparr>enable_cache := False\<rparr>) ccache_world)) = ''g++''"
    "cc_build (self_args (try_get_tools (init cache_ns\<lparr>enable_cache := False\<rparr>) sccache_world)) = ''gcc''"
    "cxx (self_args (try_get_tools (init cache_ns\<lparr>enable_cache := False\<rparr>) sccache_world)) = ''g++''"
    "cc_build (self_args (try_get_tools (init cache_ns\<lparr>enable_cache := False\<rparr>) example_world)) = ''gcc''"
    "cxx (self_args (try_get_tools (init cache_ns\<lparr>enable_cache := False\<rparr>) example_world)) = ''g++''"
    "\<not> failed (try_get_tools (init cache_ns\<lparr>enable_cache := False\<rparr>) example_world)"
    by code_simp+
  from cache_wrapper[OF on, of ccache_world] cache_wrapper[OF on, of sccache_world]
    cache_wrapper[OF on, of example_world] on w off
  show ?thesis by simp
qed

section \<open>The shape of the build file\<close>

lemma builds_of_append: "builds_of (xs @ ys) = builds_of xs @ builds_of ys"
  by (induction xs rule: builds_of.induct) simp_all


lemma rule_command_append:
  "rule_command (xs @ ys) n =
     (case rule_command xs n of Some c \<Rightarrow> Some c | None \<Rightarrow> rule_command ys n)"
  by (induction xs n rule: rule_command.induct) simp_all

lemma ninja_extracts_facts:
  assumes "ninja_extracts a w nvs = Inr ss"
  shows "defaults_of ss = []"
    and "rule_command ss n = None"
    and "map node (builds_of ss) =
           map (\<lambda>(name, version).
                  (''$build_targets_dir/extract-'' @ name, ''extract-tar'',
                   [''$'' @ name @ ''_tarball''])) nvs"
  using assms
  by (induction nvs arbitrary: ss;
      auto simp: extract_build_def writer_build_def node_def deps_def Let_def
           split: sum.splits)+

lemma ninja_Inr:
  assumes "ninja a w = Inr g"
  obtains ex where "ninja_extracts a w (name_version_tuples a) = Inr ex"
    and "g = ninja_variables a w @ ninja_downloads a @ ex @ ninja_binutils a
             @ ninja_gcc_configure a @ ninja_musl a w @ ninja_gcc_final @ ninja_linux a
             @ ninja_targets"
  using assms by (auto simp: ninja_def split: sum.splits)










lemma nodes_variables: "builds_of (ninja_variables a w) = []"
  by (simp add: ninja_variables_def builds_of_append)

lemma nodes_downloads:
  "map node (builds_of (ninja_downloads a)) =
     map (\<lambda>name. (''$'' @ name @ ''_tarball'', ''download-tarball'', [])) (download_targets a)"
  by (simp add: ninja_downloads_def builds_of_append download_targets_def
      tarball_variable_def dir_variable_def writer_build_def Let_def node_def deps_def)

lemma nodes_binutils:
  "map node (builds_of (ninja_binutils a)) =
     [(''$build_targets_dir/configure-binutils'', ''configure-binutils'',
       [''$build_targets_dir/extract-binutils'']),
      (''$build_targets_dir/build-binutils'', ''build-binutils'',
       [''$build_targets_dir/configure-binutils'']),
      (''$build_targets_dir/install-binutils'', ''install-binutils'',
       [''$build_targets_dir/build-binutils''])]"
  by (simp add: ninja_binutils_def writer_build_def node_def deps_def)

lemma nodes_gcc_configure:
  "map node (builds_of (ninja_gcc_configure a)) =
     map (\<lambda>name. (''$build_targets_dir/move-'' @ name, ''move-directory'',
                   [''$build_targets_dir/extract-'' @ name])) (move_targets a)
     @ [(''$build_targets_dir/configure-gcc'', ''configure-gcc'', configure_gcc_implicit a),
        (''$build_targets_dir/build-gcc-all-gcc'', ''build-gcc-all-gcc'',
         [''$build_targets_dir/configure-gcc''])]"
  by (simp add: ninja_gcc_configure_def builds_of_append move_targets_def move_build_def
      writer_build_def Let_def node_def deps_def)

lemma nodes_musl:
  "map node (builds_of (ninja_musl a w)) =
     [(''$build_targets_dir/configure-musl'', ''configure-musl'',
       [''$build_targets_dir/extract-musl'', ''$build_targets_dir/build-gcc-all-gcc'']),
      (''$build_targets_dir/install-musl-headers-dep'', ''install-musl-headers-dep'',
       [''$build_targets_dir/configure-musl'']),
      (''$build_targets_dir/build-gcc-libgcc-static'', ''build-gcc-libgcc-static'',
       [''$build_targets_dir/install-musl-headers-dep'']),
      (''$build_targets_dir/build-musl'', ''build-musl'',
       [''$build_targets_dir/build-gcc-libgcc-static'']),
      (''$build_targets_dir/install-musl-dep'', ''install-musl-dep'',
       [''$build_targets_dir/build-musl'']),
      (''$build_targets_dir/install-musl'', ''install-musl'',
       [''$build_targets_dir/build-musl''])]"
  by (simp add: ninja_musl_def writer_build_def node_def deps_def)

lemma nodes_gcc_final:
  "map node (builds_of ninja_gcc_final) =
     [(''$build_targets_dir/clean-gcc-libgcc-static'', ''clean-gcc-libgcc-static'',
       [''$build_targets_dir/install-musl-dep'']),
      (''$build_targets_dir/build-gcc-libgcc-shared'', ''build-gcc-libgcc-shared'',
       [''$build_targets_dir/clean-gcc-libgcc-static'']),
      (''$build_targets_dir/build-gcc'', ''build-gcc'',
       [''$build_targets_dir/build-gcc-libgcc-shared'']),
      (''$build_targets_dir/install-gcc'', ''install-gcc'',
       [''$build_targets_dir/build-gcc''])]"
  by (simp add: ninja_gcc_final_def writer_build_def node_def deps_def)

lemma nodes_linux:
  "map node (builds_of (ninja_linux a)) =
     [(''$build_targets_dir/build-linux'', ''build-linux'',
       [''$build_targets_dir/extract-linux'']),
      (''$build_targets_dir/install-linux'', ''install-linux'',
       [''$build_targets_dir/build-linux''])]"
  by (simp add: ninja_linux_def writer_build_def node_def deps_def)

lemma nodes_targets:
  "map node (builds_of ninja_targets) =
     [(''clean-build'', ''delete-directory'', [''$build_dir'']),
      (''clean-downloads'', ''delete-directory'', [''$download_dir'']),
      (''clean'', ''clean-all'', [''clean-build'', ''clean-downloads'']),
      (''install'', ''install-all'',
       [''$build_targets_dir/install-binutils'',
        ''$build_targets_dir/install-gcc'',
        ''$build_targets_dir/install-musl'',
        ''$build_targets_dir/install-linux''])]"
  by (simp add: ninja_targets_def writer_build_def node_def deps_def)

lemma name_version_names: "map fst (name_version_tuples a) = download_targets a"
  by (simp add: name_version_tuples_def download_targets_def Let_def)
lemma ninja_nodes:
  assumes "ninja a w = Inr g"
  shows "map node (builds_of g) = graph_nodes a"
proof -
  from assms obtain ex where ex: "ninja_extracts a w (name_version_tuples a) = Inr ex"
    and g: "g = ninja_variables a w @ ninja_downloads a @ ex @ ninja_binutils a
             @ ninja_gcc_configure a @ ninja_musl a w @ ninja_gcc_final @ ninja_linux a
             @ ninja_targets"
    by (rule ninja_Inr)
  have exn: "map node (builds_of ex) =
      map (\<lambda>name. (''$build_targets_dir/extract-'' @ name, ''extract-tar'',
                     [''$'' @ name @ ''_tarball''])) (download_targets a)"
    unfolding ninja_extracts_facts(3)[OF ex] name_version_names[symmetric]
    by (simp add: case_prod_beta)
  show ?thesis
    unfolding g graph_nodes_def
    by (simp only: builds_of_append map_append nodes_variables nodes_downloads exn
        nodes_binutils nodes_gcc_configure nodes_musl nodes_gcc_final nodes_linux
        nodes_targets append_Nil append_Cons append_assoc list.map)
qed

lemma deps_of_nodes:
  "deps_of bs n = map_of (map (\<lambda>(ou, ru, ds). (ou, ds)) (map node bs)) n"
  by (induction bs) (simp_all add: node_def)

lemma edge_list_nodes:
  "edge_list bs = concat (map (\<lambda>(ou, ru, ds). map (\<lambda>d. (d, ou)) ds) (map node bs))"
  by (simp add: edge_list_def node_def comp_def)
lemma ninja_edge_list:
  assumes "ninja a w = Inr g"
  shows "edge_list (builds_of g) = graph_edges (gcc_with_isl a)"
  unfolding edge_list_nodes ninja_nodes[OF assms]
  by (simp add: graph_nodes_def graph_edges_def download_targets_def move_targets_def
      configure_gcc_implicit_def build_targets_move_def Let_def)

text \<open>The build file is written whenever no patch path is something other than a directory.\<close>

lemma patch_command_returns:
  "fs w (patch_path (Patch name version)) \<noteq> File \<Longrightarrow> \<not> isl (patch_command a w name version)"
  by (simp add: patch_command_def patch_exists_def patch_files_def Let_def split: fs_entry.splits)

lemma ninja_extracts_returns:
  "(\<And>name version. (name, version) \<in> set nvs \<Longrightarrow> fs w (patch_path (Patch name version)) \<noteq> File)
     \<Longrightarrow> \<not> isl (ninja_extracts a w nvs)"
proof (induction nvs)
  case Nil
  then show ?case by simp
next
  case (Cons nv nvs)
  obtain name version where nv: "nv = (name, version)" by (cases nv)
  have 1: "\<not> isl (patch_command a w name version)"
    using Cons.prems[of name version] nv by (intro patch_command_returns) simp
  have 2: "\<not> isl (ninja_extracts a w nvs)"
    using Cons.prems by (intro Cons.IH) simp
  from 1 2 show ?case
    by (cases "patch_command a w name version"; cases "ninja_extracts a w nvs")
      (simp_all add: nv)
qed

lemma ninja_returns:
  assumes "\<And>name version. (name, version) \<in> set (name_version_tuples a)
             \<Longrightarrow> fs w (patch_path (Patch name version)) \<noteq> File"
  shows "\<exists>g. ninja a w = Inr g"
proof -
  have "\<not> isl (ninja a w)"
    unfolding ninja_isl using assms by (rule ninja_extracts_returns)
  then show ?thesis by (cases "ninja a w") simp_all
qed

lemma example_world_no_file: "fs example_world p \<noteq> File"
  by (simp add: example_world_def)

lemma ninja_example_world: "\<not> isl (ninja a example_world)"
  unfolding ninja_isl by (rule ninja_extracts_returns) (rule example_world_no_file)

section \<open>The default targets\<close>




section \<open>The kernel headers\<close>

lemma kernel_closed_up:
  "(x, y) \<in> set (graph_edges i) \<Longrightarrow> y \<in> set kernel_nodes \<Longrightarrow> x \<in> set kernel_nodes"
  by (cases i) (auto simp: graph_edges_def kernel_nodes_def)

lemma kernel_closed_down:
  "(x, y) \<in> set (graph_edges i) \<Longrightarrow> x \<in> insert ''install'' (set kernel_nodes)
     \<Longrightarrow> y \<in> insert ''install'' (set kernel_nodes)"
  by (cases i) (auto simp: graph_edges_def kernel_nodes_def)

lemma closed_up_path:
  assumes "(x, k) \<in> r\<^sup>+" "k \<in> S" "\<And>a b. (a, b) \<in> r \<Longrightarrow> b \<in> S \<Longrightarrow> a \<in> S"
  shows "x \<in> S"
  using assms by (induction rule: converse_trancl_induct) blast+

lemma closed_down_path:
  assumes "(k, x) \<in> r\<^sup>+" "k \<in> S" "\<And>a b. (a, b) \<in> r \<Longrightarrow> a \<in> S \<Longrightarrow> b \<in> S"
  shows "x \<in> S"
  using assms by (induction rule: trancl_induct) blast+

lemma kernel_up_path:
  assumes "(x, k) \<in> (set (graph_edges i))\<^sup>+" "k \<in> set kernel_nodes"
  shows "x \<in> set kernel_nodes"
  using assms(1,2) by (rule closed_up_path) (rule kernel_closed_up)

lemma kernel_down_path:
  assumes "(k, x) \<in> (set (graph_edges i))\<^sup>+" "k \<in> insert ''install'' (set kernel_nodes)"
  shows "x \<in> insert ''install'' (set kernel_nodes)"
  using assms(1,2) by (rule closed_down_path) (rule kernel_closed_down)

lemma compiler_libc_not_kernel:
  "c \<in> set compiler_libc_nodes \<Longrightarrow> c \<notin> insert ''install'' (set kernel_nodes)"
  by (auto simp: compiler_libc_nodes_def kernel_nodes_def)

text \<open>
  C7. For every configuration, the kernel-headers nodes form the chain
  \<^verbatim>\<open>extract-linux\<close>, \<^verbatim>\<open>build-linux\<close>, \<^verbatim>\<open>install-linux\<close> (behind the download of
  the kernel archive), and no path of dependency edges leads from a kernel-headers node
  to a node of the compiler or of the C library, nor from such a node to a
  kernel-headers node. More generally, every node with a path to a kernel-headers node
  is a kernel-headers node, and the only other node that a path from a kernel-headers
  node reaches is the aggregate target \<^verbatim>\<open>install\<close>.
\<close>

theorem kernel_headers_independent:
  assumes "ninja a w = Inr g"
  shows "deps_of (builds_of g) ''$build_targets_dir/extract-linux'' = Some [''$linux_tarball'']
       \<and> deps_of (builds_of g) ''$build_targets_dir/build-linux''
           = Some [''$build_targets_dir/extract-linux'']
       \<and> deps_of (builds_of g) ''$build_targets_dir/install-linux''
           = Some [''$build_targets_dir/build-linux'']
       \<and> (\<forall>k\<in>set kernel_nodes. \<forall>c\<in>set compiler_libc_nodes.
             (k, c) \<notin> (edges g)\<^sup>+ \<and> (c, k) \<notin> (edges g)\<^sup>+)
       \<and> (\<forall>k\<in>set kernel_nodes. \<forall>x.
             ((x, k) \<in> (edges g)\<^sup>+ \<longrightarrow> x \<in> set kernel_nodes)
             \<and> ((k, x) \<in> (edges g)\<^sup>+ \<longrightarrow> x \<in> insert ''install'' (set kernel_nodes)))"
proof -
  have e: "edges g = set (graph_edges (gcc_with_isl a))"
    by (simp add: edges_def ninja_edge_list[OF assms])
  have chain: "deps_of (builds_of g) ''$build_targets_dir/extract-linux'' = Some [''$linux_tarball'']
       \<and> deps_of (builds_of g) ''$build_targets_dir/build-linux''
           = Some [''$build_targets_dir/extract-linux'']
       \<and> deps_of (builds_of g) ''$build_targets_dir/install-linux''
           = Some [''$build_targets_dir/build-linux'']"
    unfolding deps_of_nodes ninja_nodes[OF assms]
    by (simp add: graph_nodes_def download_targets_def move_targets_def Let_def)
  have sep: "(k, c) \<notin> (edges g)\<^sup>+ \<and> (c, k) \<notin> (edges g)\<^sup>+"
    if "k \<in> set kernel_nodes" "c \<in> set compiler_libc_nodes" for k c
  proof -
    from that(2) have nk: "c \<notin> insert ''install'' (set kernel_nodes)"
      by (rule compiler_libc_not_kernel)
    have "(k, c) \<notin> (edges g)\<^sup>+"
      using kernel_down_path[of k c "gcc_with_isl a"] that(1) nk unfolding e by blast
    moreover have "(c, k) \<notin> (edges g)\<^sup>+"
      using kernel_up_path[of c k "gcc_with_isl a"] that(1) nk unfolding e by blast
    ultimately show ?thesis by simp
  qed
  have up: "x \<in> set kernel_nodes"
    if "k \<in> set kernel_nodes" "(x, k) \<in> (edges g)\<^sup>+" for k x
    using kernel_up_path[of x k "gcc_with_isl a"] that unfolding e by blast
  have down: "x \<in> insert ''install'' (set kernel_nodes)"
    if "k \<in> set kernel_nodes" "(k, x) \<in> (edges g)\<^sup>+" for k x
    using kernel_down_path[of k x "gcc_with_isl a"] that unfolding e by blast
  from chain sep up down show ?thesis by blast
qed

theorem kernel_headers_independent_witness:
  "\<not> isl (ninja (init example_ns) example_world)
   \<and> deps_of (builds_of (projr (ninja (init example_ns) example_world)))
        ''$build_targets_dir/install-linux'' = Some [''$build_targets_dir/build-linux'']
   \<and> (''$build_targets_dir/install-linux'', ''$build_targets_dir/build-gcc'')
        \<notin> (edges (projr (ninja (init example_ns) example_world)))\<^sup>+
   \<and> (''$build_targets_dir/build-musl'', ''$build_targets_dir/install-linux'')
        \<notin> (edges (projr (ninja (init example_ns) example_world)))\<^sup>+
   \<and> ''$build_targets_dir/install-linux'' \<in> set kernel_nodes
   \<and> ''$build_targets_dir/build-gcc'' \<in> set compiler_libc_nodes
   \<and> ''$build_targets_dir/build-musl'' \<in> set compiler_libc_nodes"
proof -
  have k: "''$build_targets_dir/install-linux'' \<in> set kernel_nodes"
    and c1: "''$build_targets_dir/build-gcc'' \<in> set compiler_libc_nodes"
    and c2: "''$build_targets_dir/build-musl'' \<in> set compiler_libc_nodes"
    by (simp_all add: kernel_nodes_def compiler_libc_nodes_def)
  note t = kernel_headers_independent[OF Inr_projr[OF ninja_example_world],
      of "init example_ns"]
  from t k c1 have "(''$build_targets_dir/install-linux'', ''$build_targets_dir/build-gcc'')
        \<notin> (edges (projr (ninja (init example_ns) example_world)))\<^sup>+"
    by blast
  moreover from t k c2 have "(''$build_targets_dir/build-musl'', ''$build_targets_dir/install-linux'')
        \<notin> (edges (projr (ninja (init example_ns) example_world)))\<^sup>+"
    by blast
  moreover from t have "deps_of (builds_of (projr (ninja (init example_ns) example_world)))
        ''$build_targets_dir/install-linux'' = Some [''$build_targets_dir/build-linux'']"
    by blast
  ultimately show ?thesis
    using k c1 c2 ninja_example_world[of "init example_ns"] by blast
qed

section \<open>Configuring gcc\<close>

text \<open>
  C6. For every configuration, the node that configures gcc depends on the extract node
  of gcc, on every relocation node (gmp, then isl when ISL is enabled, then mpc and
  mpfr) and on the build node of binutils; the relocation nodes of the graph are exactly
  those; and with ISL enabled the graph has a download node, an extract node and a
  relocation node for isl, which it does not have otherwise.
\<close>

theorem gcc_configure_dependencies:
  assumes "ninja a w = Inr g"
  shows "deps_of (builds_of g) ''$build_targets_dir/configure-gcc''
           = Some ([''$build_targets_dir/extract-gcc'', ''$build_targets_dir/move-gmp'']
                   @ (if gcc_with_isl a then [''$build_targets_dir/move-isl''] else [])
                   @ [''$build_targets_dir/move-mpc'', ''$build_targets_dir/move-mpfr'',
                      ''$build_targets_dir/build-binutils''])
       \<and> map fst (filter (\<lambda>(ou, ru, ds). ru = ''move-directory'') (map node (builds_of g)))
           = [''$build_targets_dir/move-gmp'']
             @ (if gcc_with_isl a then [''$build_targets_dir/move-isl''] else [])
             @ [''$build_targets_dir/move-mpc'', ''$build_targets_dir/move-mpfr'']
       \<and> (gcc_with_isl a \<longrightarrow>
             deps_of (builds_of g) ''$isl_tarball'' = Some []
             \<and> deps_of (builds_of g) ''$build_targets_dir/extract-isl'' = Some [''$isl_tarball'']
             \<and> deps_of (builds_of g) ''$build_targets_dir/move-isl''
                 = Some [''$build_targets_dir/extract-isl''])
       \<and> (\<not> gcc_with_isl a \<longrightarrow>
             deps_of (builds_of g) ''$isl_tarball'' = None
             \<and> deps_of (builds_of g) ''$build_targets_dir/extract-isl'' = None
             \<and> deps_of (builds_of g) ''$build_targets_dir/move-isl'' = None)"
proof (cases "gcc_with_isl a")
  case True
  then show ?thesis
    unfolding deps_of_nodes ninja_nodes[OF assms]
    by (simp add: graph_nodes_def download_targets_def move_targets_def
        configure_gcc_implicit_def build_targets_move_def Let_def)
next
  case False
  then show ?thesis
    unfolding deps_of_nodes ninja_nodes[OF assms]
    by (simp add: graph_nodes_def download_targets_def move_targets_def
        configure_gcc_implicit_def build_targets_move_def Let_def)
qed

theorem gcc_configure_dependencies_witness:
  "gcc_with_isl (init isl_ns)
   \<and> \<not> isl (ninja (init isl_ns) example_world)
   \<and> deps_of (builds_of (projr (ninja (init isl_ns) example_world)))
        ''$build_targets_dir/configure-gcc''
       = Some [''$build_targets_dir/extract-gcc'', ''$build_targets_dir/move-gmp'',
               ''$build_targets_dir/move-isl'', ''$build_targets_dir/move-mpc'',
               ''$build_targets_dir/move-mpfr'', ''$build_targets_dir/build-binutils'']
   \<and> deps_of (builds_of (projr (ninja (init isl_ns) example_world))) ''$isl_tarball'' = Some []
   \<and> deps_of (builds_of (projr (ninja (init isl_ns) example_world)))
        ''$build_targets_dir/move-isl'' = Some [''$build_targets_dir/extract-isl'']
   \<and> \<not> gcc_with_isl (init example_ns)
   \<and> deps_of (builds_of (projr (ninja (init example_ns) example_world)))
        ''$build_targets_dir/configure-gcc''
       = Some [''$build_targets_dir/extract-gcc'', ''$build_targets_dir/move-gmp'',
               ''$build_targets_dir/move-mpc'', ''$build_targets_dir/move-mpfr'',
               ''$build_targets_dir/build-binutils'']
   \<and> deps_of (builds_of (projr (ninja (init example_ns) example_world)))
        ''$build_targets_dir/move-isl'' = None"
proof -
  have i: "gcc_with_isl (init isl_ns)" and n: "\<not> gcc_with_isl (init example_ns)"
    by code_simp+
  from gcc_configure_dependencies[OF Inr_projr[OF ninja_example_world], of "init isl_ns"]
    gcc_configure_dependencies[OF Inr_projr[OF ninja_example_world], of "init example_ns"]
    ninja_example_world[of "init isl_ns"] i n
  show ?thesis by simp
qed

section \<open>Configuring musl\<close>

lemma rule_variables: "rule_command (ninja_variables a w) n = None"
  by (simp add: ninja_variables_def rule_command_append)

lemma rule_downloads: "rule_command (ninja_downloads a) ''configure-musl'' = None"
  by (simp add: ninja_downloads_def rule_command_append download_targets_def
      tarball_variable_def dir_variable_def writer_build_def Let_def)

lemma rule_binutils: "rule_command (ninja_binutils a) ''configure-musl'' = None"
  by (simp add: ninja_binutils_def writer_build_def)

lemma rule_gcc_configure: "rule_command (ninja_gcc_configure a) ''configure-musl'' = None"
  by (simp add: ninja_gcc_configure_def rule_command_append move_targets_def move_build_def
      writer_build_def Let_def)

lemma rule_musl:
  "rule_command (ninja_musl a w @ rest) ''configure-musl'' = Some (configure_musl_command a w)"
  by (simp add: ninja_musl_def)

lemma ninja_configure_musl:
  assumes "ninja a w = Inr g"
  shows "rule_command g ''configure-musl'' = Some (configure_musl_command a w)"
proof -
  from assms obtain ex where ex: "ninja_extracts a w (name_version_tuples a) = Inr ex"
    and g: "g = ninja_variables a w @ ninja_downloads a @ ex @ ninja_binutils a
             @ ninja_gcc_configure a @ ninja_musl a w @ ninja_gcc_final @ ninja_linux a
             @ ninja_targets"
    by (rule ninja_Inr)
  show ?thesis
    unfolding g
    by (simp only: rule_command_append[of "ninja_variables a w"]
        rule_command_append[of "ninja_downloads a"] rule_command_append[of ex]
        rule_command_append[of "ninja_binutils a"] rule_command_append[of "ninja_gcc_configure a"]
        rule_variables rule_downloads ninja_extracts_facts(2)[OF ex] rule_binutils
        rule_gcc_configure rule_musl option.case)
qed

lemma tools_keep_host:
  "host (self_args (tools_host w r)) = host (self_args r)"
  "host (self_args (tools_cache w r)) = host (self_args r)"
  "host (self_args (tools_make w r)) = host (self_args r)"
  by (simp_all add: tools_host_def tools_cache_def tools_make_def Let_def case_prod_beta
      check_simps split: option.splits)

lemma try_get_tools_host: "host (self_args (try_get_tools a w)) = host a"
  by (simp add: try_get_tools_unfold tools_rest_simps tools_keep_host tools_build_simps)

text \<open>
  C5. \<open>is_cross\<close> holds exactly when the host is \<^verbatim>\<open>None\<close>, and tool discovery does
  not change the host, so for the object that \<^verbatim>\<open>main\<close> passes on it holds exactly when
  no \<^verbatim>\<open>--host\<close> was given. When it holds, the command that configures musl sets
  \<^verbatim>\<open>CC\<close> to \<^verbatim>\<open>xgcc\<close> in the gcc build directory (with \<^verbatim>\<open>.exe\<close> on Windows) with
  \<^verbatim>\<open>-B\<close> pointing into that directory; when it does not, to \<^verbatim>\<open>${target}-gcc\<close>.
\<close>

theorem musl_compiler_choice:
  assumes \<open>ninja a w = Inr g\<close>
  shows \<open>is_cross a = (host a = None)
       \<and> is_cross (self_args (try_get_tools (init ns) w')) = (ns_host ns = None)
       \<and> (is_cross a \<longrightarrow>
             rule_command g ''configure-musl'' =
               Some (''rm -rf $musl_dir && mkdir $musl_dir && cd $musl_dir && $env_vars LIBCC="$root_dir/$gcc_dir/$target/libgcc/libgcc.a" CC="$root_dir/$gcc_dir/gcc/xgcc''
                     @ host_exe_suffix w
                     @ '' -B $root_dir/$gcc_dir/gcc" ../musl-$musl_version/configure --prefix= --host=$target && touch ../../$out''))
       \<and> (\<not> is_cross a \<longrightarrow>
             rule_command g ''configure-musl'' =
               Some ''rm -rf $musl_dir && mkdir $musl_dir && cd $musl_dir && $env_vars LIBCC="$root_dir/$gcc_dir/$target/libgcc/libgcc.a" CC=${target}-gcc CROSS_COMPILE=${target}- ../musl-$musl_version/configure --prefix= --host=$target && touch ../../$out'')\<close>
proof -
  have 1: "is_cross a = (host a = None)"
    by (simp add: is_cross_def)
  have 2: "is_cross (self_args (try_get_tools (init ns) w')) = (ns_host ns = None)"
    by (simp add: is_cross_def try_get_tools_host init_def)
  have 3: "rule_command g ''configure-musl'' = Some (configure_musl_command a w)"
    using assms by (rule ninja_configure_musl)
  show ?thesis
    unfolding 3
    using 1 2
    by (simp add: configure_musl_command_def musl_configure_env_vars_def musl_flags_def
        Let_def)
qed

theorem musl_compiler_choice_witness:
  \<open>is_cross (init example_ns)
   \<and> \<not> isl (ninja (init example_ns) example_world)
   \<and> rule_command (projr (ninja (init example_ns) example_world)) ''configure-musl'' =
       Some ''rm -rf $musl_dir && mkdir $musl_dir && cd $musl_dir && $env_vars LIBCC="$root_dir/$gcc_dir/$target/libgcc/libgcc.a" CC="$root_dir/$gcc_dir/gcc/xgcc -B $root_dir/$gcc_dir/gcc" ../musl-$musl_version/configure --prefix= --host=$target && touch ../../$out''
   \<and> \<not> is_cross (init canadian_ns)
   \<and> \<not> isl (ninja (init canadian_ns) example_world)
   \<and> rule_command (projr (ninja (init canadian_ns) example_world)) ''configure-musl'' =
       Some ''rm -rf $musl_dir && mkdir $musl_dir && cd $musl_dir && $env_vars LIBCC="$root_dir/$gcc_dir/$target/libgcc/libgcc.a" CC=${target}-gcc CROSS_COMPILE=${target}- ../musl-$musl_version/configure --prefix= --host=$target && touch ../../$out''\<close>
proof -
  have c: "is_cross (init example_ns)" and n: "\<not> is_cross (init canadian_ns)"
    and s: "host_exe_suffix example_world = []"
    by code_simp+
  from musl_compiler_choice[OF Inr_projr[OF ninja_example_world], of "init example_ns"]
    musl_compiler_choice[OF Inr_projr[OF ninja_example_world], of "init canadian_ns"]
    ninja_example_world[of "init example_ns"] ninja_example_world[of "init canadian_ns"] c n s
  show ?thesis by simp
qed

section \<open>The patch catalogue\<close>





end
